theory Spec2Isabelle
  imports Complex_Main "HOL-Library.Log_Nat" "HOL-Library.Sublist"
begin

section \<open>agent-audit: canonical model, estimator, lint engine, format detection\<close>

text \<open>
  The development follows the Python package \<^verbatim>\<open>agent_audit\<close>:
  \<^verbatim>\<open>models.py\<close> (data model), \<^verbatim>\<open>config.py\<close> (tables), \<^verbatim>\<open>pricing.py\<close>,
  \<^verbatim>\<open>estimator.py\<close>, \<^verbatim>\<open>rules/*.py\<close>, \<^verbatim>\<open>linter.py\<close> and \<^verbatim>\<open>parsers/*.py\<close>.
  Exceptions are values of type \<open>error\<close>; a function that may raise returns
  \<open>error + 'a\<close> with \<open>Inl\<close> for the exception.
\<close>

subsection \<open>Enumerations (models.py)\<close>

datatype WorkflowFormat = GORGON | LANGCHAIN | CREWAI | GENERIC

datatype StepType =
  LLM | SHELL | PARALLEL | CHECKPOINT | FAN_OUT | FAN_IN | MAP_REDUCE | BRANCH | LOOP | MCP_TOOL

datatype Severity = ERROR | WARNING | INFO

datatype RuleCategory = BUDGET | RESILIENCE | EFFICIENCY | SECURITY

datatype error =
  PricingError | TypeError | ValueError | AttributeError | ValidationError | OverflowError
  | ZeroDivisionError

text \<open>The string value of a \<^verbatim>\<open>StrEnum\<close> member (\<^verbatim>\<open>step_type.value\<close>, \<^verbatim>\<open>severity.value\<close>).\<close>

fun StepType_value :: "StepType \<Rightarrow> string" where
  "StepType_value LLM = ''llm''"
| "StepType_value SHELL = ''shell''"
| "StepType_value PARALLEL = ''parallel''"
| "StepType_value CHECKPOINT = ''checkpoint''"
| "StepType_value FAN_OUT = ''fan_out''"
| "StepType_value FAN_IN = ''fan_in''"
| "StepType_value MAP_REDUCE = ''map_reduce''"
| "StepType_value BRANCH = ''branch''"
| "StepType_value LOOP = ''loop''"
| "StepType_value MCP_TOOL = ''mcp_tool''"

fun Severity_value :: "Severity \<Rightarrow> string" where
  "Severity_value ERROR = ''error''"
| "Severity_value WARNING = ''warning''"
| "Severity_value INFO = ''info''"

subsection \<open>Python floats\<close>

text \<open>
  A float is an IEEE-754 double: a finite value, given by its exact rational value, one of
  the two infinities, or NaN. The two zeros are one value; no operation of the source
  tells them apart. Rounding is to nearest, ties to even: to 53 significant bits for a
  normal number and to a multiple of \<open>2^-1074\<close> below that (gradual underflow).
\<close>

datatype pyfloat = Finite rat | PosInf | NegInf | NaN

definition rne :: "rat \<Rightarrow> int" where
  "rne x = (let f = \<lfloor>x\<rfloor>; d = x - of_int f in
     if d < 1 / 2 then f else if 1 / 2 < d then f + 1 else if even f then f else f + 1)"

text \<open>\<open>ilog2 x\<close> is the integer \<open>k\<close> with \<open>2^k \<le> x < 2^(k+1)\<close>, for \<open>x > 0\<close>.\<close>

definition ilog2 :: "rat \<Rightarrow> int" where
  "ilog2 x = (if 1 \<le> x then bitlen \<lfloor>x\<rfloor> - 1 else - bitlen (\<lceil>1 / x\<rceil> - 1))"

definition fl :: "rat \<Rightarrow> rat" where
  "fl x = (if x = 0 then 0
     else let e = max (ilog2 \<bar>x\<bar> - 52) (- 1074)
          in of_int (rne (x / power_int 2 e)) * power_int 2 e)"

text \<open>
  The largest double is \<open>2^1024 - 2^971\<close>. A number of magnitude \<open>2^1024 - 2^970\<close> or more
  rounds beyond it: a float operation then gives an infinity, while the conversion of an
  integer to a float (\<^verbatim>\<open>int * float\<close>, \<^verbatim>\<open>float(n)\<close>) and the true division of two integers
  raise \<^verbatim>\<open>OverflowError\<close>.
\<close>

definition DBL_OVERFLOW :: rat where
  "DBL_OVERFLOW = 2 ^ 1024 - 2 ^ 970"

definition to_double :: "rat \<Rightarrow> pyfloat" where
  "to_double x =
     (if DBL_OVERFLOW \<le> x then PosInf else if x \<le> - DBL_OVERFLOW then NegInf
      else Finite (fl x))"

definition py_float_of_int :: "int \<Rightarrow> error + pyfloat" where
  "py_float_of_int i =
     (if DBL_OVERFLOW \<le> \<bar>of_int i\<bar> then Inl OverflowError else Inr (Finite (fl (of_int i))))"

text \<open>\<^verbatim>\<open>a / b\<close> on integers: the correctly rounded quotient.\<close>

definition py_truediv :: "int \<Rightarrow> int \<Rightarrow> error + pyfloat" where
  "py_truediv a b =
     (if b = 0 then Inl ZeroDivisionError
      else if DBL_OVERFLOW \<le> \<bar>of_int a / of_int b\<bar> then Inl OverflowError
      else Inr (Finite (fl (of_int a / of_int b))))"

text \<open>The sign of a float that is not NaN, for the products and sums with an infinity.\<close>

fun fsign :: "pyfloat \<Rightarrow> int" where
  "fsign (Finite x) = (if x = 0 then 0 else if 0 < x then 1 else - 1)"
| "fsign PosInf = 1"
| "fsign NegInf = - 1"
| "fsign NaN = 0"

fun py_fmul :: "pyfloat \<Rightarrow> pyfloat \<Rightarrow> pyfloat" where
  "py_fmul (Finite x) (Finite y) = to_double (x * y)"
| "py_fmul NaN b = NaN"
| "py_fmul a NaN = NaN"
| "py_fmul a b =
     (let s = fsign a * fsign b in if s = 0 then NaN else if 0 < s then PosInf else NegInf)"

fun py_fadd :: "pyfloat \<Rightarrow> pyfloat \<Rightarrow> pyfloat" where
  "py_fadd (Finite x) (Finite y) = to_double (x + y)"
| "py_fadd NaN b = NaN"
| "py_fadd a NaN = NaN"
| "py_fadd PosInf NegInf = NaN"
| "py_fadd NegInf PosInf = NaN"
| "py_fadd PosInf b = PosInf"
| "py_fadd a PosInf = PosInf"
| "py_fadd NegInf b = NegInf"
| "py_fadd a NegInf = NegInf"

text \<open>\<^verbatim>\<open>int(x)\<close> of a float truncates toward zero and \<^verbatim>\<open>round(x)\<close> rounds half to even; both
  raise on an infinity (\<^verbatim>\<open>OverflowError\<close>) and on NaN (\<^verbatim>\<open>ValueError\<close>). \<^verbatim>\<open>round(x, n)\<close> rounds
  the exact value to \<open>n\<close> decimals and returns the nearest double; it returns an infinity
  or NaN as it is.\<close>

fun py_int_of_float :: "pyfloat \<Rightarrow> error + int" where
  "py_int_of_float (Finite x) = Inr (if 0 \<le> x then \<lfloor>x\<rfloor> else \<lceil>x\<rceil>)"
| "py_int_of_float NaN = Inl ValueError"
| "py_int_of_float a = Inl OverflowError"

fun py_round :: "pyfloat \<Rightarrow> error + int" where
  "py_round (Finite x) = Inr (rne x)"
| "py_round NaN = Inl ValueError"
| "py_round a = Inl OverflowError"

fun py_round_n :: "pyfloat \<Rightarrow> nat \<Rightarrow> pyfloat" where
  "py_round_n (Finite x) n = to_double (of_int (rne (x * 10 ^ n)) / 10 ^ n)"
| "py_round_n a n = a"

text \<open>\<^verbatim>\<open>i > x\<close> for an integer and a float compares the exact values.\<close>

fun py_int_gt_float :: "int \<Rightarrow> pyfloat \<Rightarrow> bool" where
  "py_int_gt_float i (Finite x) = (x < of_int i)"
| "py_int_gt_float i NegInf = True"
| "py_int_gt_float i a = False"

subsection \<open>Values loaded from YAML\<close>

text \<open>
  The \<^verbatim>\<open>Any\<close> values that \<^verbatim>\<open>yaml.safe_load\<close> produces: \<^verbatim>\<open>None\<close>, booleans,
  integers, floats, strings, lists and mappings. Mappings are \<^verbatim>\<open>dict[str, Any]\<close> as the
  source annotates them; they are association lists in insertion order and a lookup takes
  the first entry of a key. A string is the list of the UTF-8 bytes of the Python string,
  so a character outside ASCII takes several bytes.
\<close>

datatype pyval =
  PNone | PBool bool | PInt int | PFloat pyfloat | PStr string
  | PList "pyval list" | PDict "(string \<times> pyval) list"

type_synonym pydict = "(string \<times> pyval) list"

text \<open>Python truthiness (\<^verbatim>\<open>if v:\<close>, \<^verbatim>\<open>a or b\<close>, \<^verbatim>\<open>not v\<close>).\<close>

fun truthy :: "pyval \<Rightarrow> bool" where
  "truthy PNone = False"
| "truthy (PBool b) = b"
| "truthy (PInt i) = (i \<noteq> 0)"
| "truthy (PFloat f) = (f \<noteq> Finite 0)"
| "truthy (PStr s) = (s \<noteq> [])"
| "truthy (PList xs) = (xs \<noteq> [])"
| "truthy (PDict kvs) = (kvs \<noteq> [])"

text \<open>Truthiness of an optional string and an optional integer (\<^verbatim>\<open>str | None\<close>, \<^verbatim>\<open>int | None\<close>).\<close>

definition truthy_str :: "string option \<Rightarrow> bool" where
  "truthy_str so = (case so of None \<Rightarrow> False | Some s \<Rightarrow> s \<noteq> [])"

definition truthy_int :: "int option \<Rightarrow> bool" where
  "truthy_int io = (case io of None \<Rightarrow> False | Some i \<Rightarrow> i \<noteq> 0)"

text \<open>\<^verbatim>\<open>d.get(k)\<close> (\<^verbatim>\<open>None\<close> when absent), \<^verbatim>\<open>d.get(k, default)\<close> and \<^verbatim>\<open>k in d\<close>.\<close>

definition dict_get :: "pydict \<Rightarrow> string \<Rightarrow> pyval" where
  "dict_get d k = (case map_of d k of None \<Rightarrow> PNone | Some v \<Rightarrow> v)"

definition dict_get_default :: "pydict \<Rightarrow> string \<Rightarrow> pyval \<Rightarrow> pyval" where
  "dict_get_default d k dflt = (case map_of d k of None \<Rightarrow> dflt | Some v \<Rightarrow> v)"

definition dict_has :: "pydict \<Rightarrow> string \<Rightarrow> bool" where
  "dict_has d k = (map_of d k \<noteq> None)"

subsection \<open>Configuration tables (config.py)\<close>

definition ROLE_TOKEN_DEFAULTS :: "(string \<times> int) list" where
  "ROLE_TOKEN_DEFAULTS =
    [(''planner'', 5000), (''builder'', 20000), (''tester'', 10000), (''reviewer'', 5000),
     (''architect'', 8000), (''documenter'', 6000), (''analyst'', 8000), (''reporter'', 4000),
     (''visualizer'', 5000), (''security_auditor'', 12000)]"

definition STEP_TYPE_TOKEN_DEFAULTS :: "(string \<times> int) list" where
  "STEP_TYPE_TOKEN_DEFAULTS =
    [(''llm'', 8000), (''shell'', 0), (''checkpoint'', 0), (''mcp_tool'', 0), (''fan_in'', 0),
     (''branch'', 0)]"

text \<open>\<^verbatim>\<open>INPUT_OUTPUT_RATIO: float = 0.3\<close>: the double nearest to three tenths.\<close>

definition INPUT_OUTPUT_RATIO :: rat where
  "INPUT_OUTPUT_RATIO = fl (3 / 10)"

definition SEVERITY_DEDUCTIONS :: "(string \<times> int) list" where
  "SEVERITY_DEDUCTIONS = [(''error'', 10), (''warning'', 5), (''info'', 2)]"

text \<open>\<^verbatim>\<open>table.get(key, default)\<close> on a table of integers.\<close>

definition table_get :: "(string \<times> int) list \<Rightarrow> string \<Rightarrow> int \<Rightarrow> int" where
  "table_get t k dflt = (case map_of t k of None \<Rightarrow> dflt | Some v \<Rightarrow> v)"

subsection \<open>Parsed workflow model (models.py)\<close>

datatype ParsedStep = ParsedStep
  (id_step: string)
  (step_type: StepType)
  (provider: "string option")
  (model: "string option")
  (role: "string option")
  (estimated_tokens: "int option")
  (on_failure: "string option")
  (max_retries: int)
  (timeout_seconds: "int option")
  (has_condition: bool)
  (has_fallback: bool)
  (depends_on: "string list")
  (nested_steps: "ParsedStep list")
  (raw_params: pydict)

record ParsedWorkflow =
  name :: string
  version :: string
  description :: string
  format :: WorkflowFormat
  token_budget :: "int option"
  wf_timeout_seconds :: "int option"
  steps :: "ParsedStep list"
  inputs :: pydict
  outputs :: "string list"
  metadata :: pydict
  source_path :: "string option"

record StepEstimate =
  se_step_id :: string
  se_step_type :: StepType
  se_provider :: string
  se_model :: string
  se_role :: "string option"
  se_estimated_tokens :: int
  input_tokens :: int
  output_tokens :: int
  cost_usd :: pyfloat
  source :: string

record WorkflowEstimate =
  workflow_name :: string
  total_tokens :: int
  total_cost_usd :: pyfloat
  budget_declared :: "int option"
  budget_utilization :: "pyfloat option"
  we_steps :: "StepEstimate list"
  we_provider :: string
  we_model :: string

record ModelPricing =
  mp_name :: string
  mp_provider :: string
  input_price_per_1k :: pyfloat
  output_price_per_1k :: pyfloat
  context_window :: int
  mp_notes :: string

record ProviderConfig =
  pc_name :: string
  models :: "(string \<times> ModelPricing) list"
  default_model :: string

text \<open>The provider table is what \<^verbatim>\<open>load_providers()\<close> returns (the cached contents of
  the pricing file); the functions below take it as an argument.\<close>

type_synonym providers_table = "(string \<times> ProviderConfig) list"

subsection \<open>Pricing lookup and cost (pricing.py)\<close>

definition get_model_pricing ::
  "providers_table \<Rightarrow> string \<Rightarrow> string option \<Rightarrow> error + ModelPricing" where
  "get_model_pricing providers prov mdl =
     (case map_of providers prov of
        None \<Rightarrow> Inl PricingError
      | Some config \<Rightarrow>
          (let model_name = (if truthy_str mdl then the mdl else default_model config) in
           case map_of (models config) model_name of
             None \<Rightarrow> Inl PricingError
           | Some pricing \<Rightarrow> Inr pricing))"

definition calculate_cost :: "int \<Rightarrow> int \<Rightarrow> ModelPricing \<Rightarrow> error + pyfloat" where
  "calculate_cost inp outp pricing =
     (case py_truediv inp 1000 of
        Inl e \<Rightarrow> Inl e
      | Inr inp_k \<Rightarrow>
          (let input_cost = py_fmul inp_k (input_price_per_1k pricing) in
           case py_truediv outp 1000 of
             Inl e \<Rightarrow> Inl e
           | Inr outp_k \<Rightarrow>
               (let output_cost = py_fmul outp_k (output_price_per_1k pricing)
                in Inr (py_round_n (py_fadd input_cost output_cost) 6))))"

subsection \<open>Estimation engine (estimator.py)\<close>

definition resolve_tokens :: "ParsedStep \<Rightarrow> int \<times> string" where
  "resolve_tokens step =
     (case estimated_tokens step of
        Some t \<Rightarrow> (t, ''declared'')
      | None \<Rightarrow>
          if truthy_str (role step) \<and> map_of ROLE_TOKEN_DEFAULTS (the (role step)) \<noteq> None
          then (the (map_of ROLE_TOKEN_DEFAULTS (the (role step))), ''archetype'')
          else
            (let dflt = table_get STEP_TYPE_TOKEN_DEFAULTS (StepType_value (step_type step)) 0;
                 dflt = (if step_type step = LLM \<and> dflt = 0
                         then table_get STEP_TYPE_TOKEN_DEFAULTS ''llm'' 8000 else dflt)
             in (dflt, ''default'')))"

text \<open>\<^verbatim>\<open>int(total * INPUT_OUTPUT_RATIO)\<close>: the integer is converted to a float, multiplied by
  the double 0.3, and the product is truncated.\<close>

definition split_tokens :: "int \<Rightarrow> error + int \<times> int" where
  "split_tokens tot =
     (case py_float_of_int tot of
        Inl e \<Rightarrow> Inl e
      | Inr ftot \<Rightarrow>
          (case py_int_of_float (py_fmul ftot (Finite INPUT_OUTPUT_RATIO)) of
             Inl e \<Rightarrow> Inl e
           | Inr inp \<Rightarrow> (let outp = tot - inp in Inr (inp, outp))))"

text \<open>The first block of \<^verbatim>\<open>estimate_step\<close>: the resolved total and its source tag, after
  the totals of the nested steps have been compared with it.\<close>

definition container_tokens :: "ParsedStep \<Rightarrow> int \<times> string" where
  "container_tokens step =
     (let (total0, source0) = resolve_tokens step
      in if nested_steps step \<noteq> [] then
           (let nested_total = sum_list (map (\<lambda>ns. fst (resolve_tokens ns)) (nested_steps step))
            in if nested_total > total0
               then (nested_total,
                     if truthy_int (estimated_tokens step) then ''declared'' else ''archetype'')
               else (total0, source0))
         else (total0, source0))"

definition estimate_step ::
  "providers_table \<Rightarrow> ParsedStep \<Rightarrow> string \<Rightarrow> string \<Rightarrow> error + StepEstimate" where
  "estimate_step providers step prov mdl =
     (let (tot, src) = container_tokens step
      in case split_tokens tot of
           Inl e \<Rightarrow> Inl e
         | Inr (inp, outp) \<Rightarrow>
             (let mk = (\<lambda>cost. \<lparr> se_step_id = id_step step, se_step_type = step_type step,
                     se_provider = prov, se_model = mdl, se_role = role step,
                     se_estimated_tokens = tot, input_tokens = inp, output_tokens = outp,
                     cost_usd = cost, source = src \<rparr>)
              in if step_type step \<noteq> LLM then Inr (mk (Finite 0))
                 else (case get_model_pricing providers prov (Some mdl) of
                         Inl e \<Rightarrow> Inl e
                       | Inr pricing \<Rightarrow>
                           (case calculate_cost inp outp pricing of
                              Inl e \<Rightarrow> Inl e
                            | Inr cost \<Rightarrow> Inr (mk cost)))))"

text \<open>The loop of \<^verbatim>\<open>estimate_workflow\<close> over the steps; the first exception ends it.\<close>

fun estimate_steps ::
  "providers_table \<Rightarrow> bool \<Rightarrow> string \<Rightarrow> string \<Rightarrow> ParsedStep list \<Rightarrow> error + StepEstimate list"
  where
  "estimate_steps providers explicit_provider prov mdl [] = Inr []"
| "estimate_steps providers explicit_provider prov mdl (step # rest) =
     (let step_provider =
            (if explicit_provider then prov
             else if truthy_str (provider step) then the (provider step) else prov);
          step_model = (if truthy_str (model step) then the (model step) else mdl)
      in case estimate_step providers step step_provider step_model of
           Inl e \<Rightarrow> Inl e
         | Inr est \<Rightarrow>
             (case estimate_steps providers explicit_provider prov mdl rest of
                Inl e \<Rightarrow> Inl e
              | Inr ests \<Rightarrow> Inr (est # ests)))"

text \<open>\<^verbatim>\<open>sum(e.cost_usd for e in step_estimates)\<close>: float additions from the integer 0.\<close>

definition sum_costs :: "pyfloat list \<Rightarrow> pyfloat" where
  "sum_costs cs = foldl py_fadd (Finite 0) cs"

text \<open>The first two blocks of \<^verbatim>\<open>estimate_workflow\<close>: the workflow-level provider is the
  caller's, else that of the first step with a provider, else \<^verbatim>\<open>"anthropic"\<close>; the
  workflow-level model is the caller's, else the default model of that provider.\<close>

definition resolve_provider :: "ParsedWorkflow \<Rightarrow> string option \<Rightarrow> string" where
  "resolve_provider workflow provider_arg =
     (case provider_arg of
        Some p \<Rightarrow> p
      | None \<Rightarrow>
          (case find (\<lambda>s. truthy_str (provider s)) (steps workflow) of
             Some s \<Rightarrow> the (provider s)
           | None \<Rightarrow> ''anthropic''))"

definition resolve_model :: "providers_table \<Rightarrow> string \<Rightarrow> string option \<Rightarrow> string" where
  "resolve_model providers prov model_arg =
     (case model_arg of
        Some m \<Rightarrow> m
      | None \<Rightarrow>
          (case map_of providers prov of
             Some config \<Rightarrow> default_model config
           | None \<Rightarrow> ''unknown''))"

text \<open>The last block: \<^verbatim>\<open>round((total_tokens / token_budget) * 100, 1)\<close> for a positive
  budget.\<close>

definition budget_util_of :: "int \<Rightarrow> int option \<Rightarrow> error + pyfloat option" where
  "budget_util_of tot budget =
     (if truthy_int budget \<and> the budget > 0 then
        (case py_truediv tot (the budget) of
           Inl e \<Rightarrow> Inl e
         | Inr q \<Rightarrow> Inr (Some (py_round_n (py_fmul q (Finite 100)) 1)))
      else Inr None)"

definition estimate_workflow ::
  "providers_table \<Rightarrow> ParsedWorkflow \<Rightarrow> string option \<Rightarrow> string option
     \<Rightarrow> error + WorkflowEstimate" where
  "estimate_workflow providers workflow provider_arg model_arg =
     (let explicit_provider = (provider_arg \<noteq> None);
          prov = resolve_provider workflow provider_arg;
          mdl = resolve_model providers prov model_arg
      in case estimate_steps providers explicit_provider prov mdl (steps workflow) of
           Inl e \<Rightarrow> Inl e
         | Inr step_estimates \<Rightarrow>
             (let tot = sum_list (map se_estimated_tokens step_estimates);
                  total_cost = sum_costs (map cost_usd step_estimates)
              in case budget_util_of tot (token_budget workflow) of
                   Inl e \<Rightarrow> Inl e
                 | Inr budget_util \<Rightarrow>
                     Inr \<lparr> workflow_name = name workflow, total_tokens = tot,
                           total_cost_usd = py_round_n total_cost 6,
                           budget_declared = token_budget workflow,
                           budget_utilization = budget_util, we_steps = step_estimates,
                           we_provider = prov, we_model = mdl \<rparr>))"

subsection \<open>Lint model and message formatting (models.py)\<close>

record LintFinding =
  rule_id :: string
  category :: RuleCategory
  severity :: Severity
  message :: string
  step_id :: "string option"
  suggestion :: "string option"

record LintReport =
  lr_workflow_name :: string
  score :: int
  findings :: "LintFinding list"
  error_count :: int
  warning_count :: int
  info_count :: int

text \<open>Characters that cannot stand inside a string literal: the apostrophe, the
  backslash and the em dash (U+2014, its three UTF-8 bytes).\<close>

definition sq :: string where
  "sq = [CHR 0x27]"

definition backslash :: string where
  "backslash = [CHR 0x5C]"

definition em_dash :: string where
  "em_dash = [CHR 0xE2, CHR 0x80, CHR 0x94]"

text \<open>\<^verbatim>\<open>str(n)\<close> and \<^verbatim>\<open>f"{n:,}"\<close> for an integer \<open>n\<close>.\<close>

fun digits_nat :: "nat \<Rightarrow> string" where
  "digits_nat n = (if n < 10 then [char_of (48 + n)]
     else digits_nat (n div 10) @ [char_of (48 + n mod 10)])"

declare digits_nat.simps [simp del]

definition py_str_int :: "int \<Rightarrow> string" where
  "py_str_int i = (if i < 0 then ''-'' @ digits_nat (nat (- i)) else digits_nat (nat i))"

fun group3 :: "string \<Rightarrow> string" where
  "group3 (a # b # c # d # rest) = a # b # c # CHR '','' # group3 (d # rest)"
| "group3 ds = ds"

definition py_fmt_commas :: "int \<Rightarrow> string" where
  "py_fmt_commas i =
     (if i < 0 then ''-'' @ rev (group3 (rev (digits_nat (nat (- i)))))
      else rev (group3 (rev (digits_nat (nat i)))))"

text \<open>\<^verbatim>\<open>sep.join(xs)\<close>.\<close>

fun py_join :: "string \<Rightarrow> string list \<Rightarrow> string" where
  "py_join sep [] = []"
| "py_join sep [x] = x"
| "py_join sep (x # y # rest) = x @ sep @ py_join sep (y # rest)"

text \<open>\<^verbatim>\<open>sub in s\<close> on strings.\<close>

fun py_in_str :: "string \<Rightarrow> string \<Rightarrow> bool" where
  "py_in_str sub [] = (sub = [])"
| "py_in_str sub (c # cs) = (prefix sub (c # cs) \<or> py_in_str sub cs)"

text \<open>
  \<^verbatim>\<open>str(v)\<close>: a string is returned as it is; \<^verbatim>\<open>None\<close>, booleans, integers, the empty
  list and the empty mapping have their fixed texts. The text that Python's built-in
  \<^verbatim>\<open>str\<close> gives for any other value (\<^verbatim>\<open>repr\<close> of floats and of non-empty lists and
  mappings) is the argument \<open>str_of\<close> of every function that needs it.
\<close>

definition py_str :: "(pyval \<Rightarrow> string) \<Rightarrow> pyval \<Rightarrow> string" where
  "py_str str_of v =
     (case v of
        PStr s \<Rightarrow> s
      | PNone \<Rightarrow> ''None''
      | PBool b \<Rightarrow> (if b then ''True'' else ''False'')
      | PInt i \<Rightarrow> py_str_int i
      | PList [] \<Rightarrow> ''[]''
      | PDict [] \<Rightarrow> ''{}''
      | _ \<Rightarrow> str_of v)"

subsection \<open>Budget rules (rules/budget.py)\<close>

definition check_workflow_budget :: "ParsedWorkflow \<Rightarrow> LintFinding list" where
  "check_workflow_budget workflow =
     (if token_budget workflow = None then
        [\<lparr> rule_id = ''B001'', category = BUDGET, severity = WARNING,
            message = ''Workflow has no token_budget '' @ em_dash @ '' cost risk is unbounded.'',
            step_id = None,
            suggestion = Some (''Add '' @ sq @ ''token_budget: <limit>'' @ sq
                                 @ '' to the workflow config.'') \<rparr>]
      else [])"

text \<open>The loop of rule B002; the division \<^verbatim>\<open>tokens / token_budget\<close> and \<^verbatim>\<open>round\<close> may raise,
  which ends the loop.\<close>

fun budget_hog_loop :: "int \<Rightarrow> pyfloat \<Rightarrow> ParsedStep list \<Rightarrow> error + LintFinding list" where
  "budget_hog_loop budget threshold [] = Inr []"
| "budget_hog_loop budget threshold (step # rest) =
     (case estimated_tokens step of
        None \<Rightarrow> budget_hog_loop budget threshold rest
      | Some tokens \<Rightarrow>
          if py_int_gt_float tokens threshold then
            (case py_truediv tokens budget of
               Inl e \<Rightarrow> Inl e
             | Inr q \<Rightarrow>
            (case py_round (py_fmul q (Finite 100)) of
               Inl e \<Rightarrow> Inl e
             | Inr pct \<Rightarrow>
            (case budget_hog_loop budget threshold rest of
               Inl e \<Rightarrow> Inl e
             | Inr found \<Rightarrow>
                 Inr (\<lparr> rule_id = ''B002'', category = BUDGET, severity = WARNING,
                        message = ''Step '' @ sq @ id_step step @ sq @ '' uses ''
                          @ py_fmt_commas tokens @ '' tokens ('' @ py_str_int pct
                          @ ''% of workflow budget).'',
                        step_id = Some (id_step step),
                        suggestion =
                          Some ''Consider breaking this step into smaller sub-steps.'' \<rparr>
                      # found))))
          else budget_hog_loop budget threshold rest)"

text \<open>\<^verbatim>\<open>threshold = workflow.token_budget * 0.5\<close> is computed before the loop: the conversion
  of the budget to a float may raise.\<close>

definition check_step_budget_hog :: "ParsedWorkflow \<Rightarrow> error + LintFinding list" where
  "check_step_budget_hog workflow =
     (if token_budget workflow = None \<or> token_budget workflow = Some 0 then Inr []
      else
        (let budget = the (token_budget workflow) in
         case py_float_of_int budget of
           Inl e \<Rightarrow> Inl e
         | Inr fbudget \<Rightarrow>
             budget_hog_loop budget (py_fmul fbudget (Finite (1 / 2))) (steps workflow)))"

text \<open>The contribution of one step to the total of rule B003.\<close>

definition over_budget_tokens :: "ParsedStep \<Rightarrow> int" where
  "over_budget_tokens step =
     (case estimated_tokens step of
        Some t \<Rightarrow> t
      | None \<Rightarrow>
          if step_type step = LLM then
            (if truthy_str (role step) \<and> map_of ROLE_TOKEN_DEFAULTS (the (role step)) \<noteq> None
             then the (map_of ROLE_TOKEN_DEFAULTS (the (role step)))
             else table_get STEP_TYPE_TOKEN_DEFAULTS ''llm'' 8000)
          else 0)"

definition check_total_over_budget :: "ParsedWorkflow \<Rightarrow> LintFinding list" where
  "check_total_over_budget workflow =
     (if token_budget workflow = None \<or> token_budget workflow = Some 0 then []
      else
        (let tot = foldl (\<lambda>acc step. acc + over_budget_tokens step) 0 (steps workflow) in
         if tot > the (token_budget workflow) then
           [\<lparr> rule_id = ''B003'', category = BUDGET, severity = ERROR,
               message = ''Estimated total ('' @ py_fmt_commas tot @ '' tokens) exceeds ''
                 @ ''workflow budget ('' @ py_fmt_commas (the (token_budget workflow))
                 @ '' tokens).'',
               step_id = None,
               suggestion = Some ''Increase token_budget or reduce step estimates.'' \<rparr>]
         else []))"

definition check_undeclared_tokens :: "ParsedWorkflow \<Rightarrow> LintFinding list" where
  "check_undeclared_tokens workflow =
     concat (map (\<lambda>step.
       if step_type step = LLM \<and> estimated_tokens step = None then
         [\<lparr> rule_id = ''B004'', category = BUDGET, severity = INFO,
             message = ''Step '' @ sq @ id_step step @ sq @ '' has no estimated_tokens ''
               @ em_dash @ '' using defaults.'',
             step_id = Some (id_step step),
             suggestion = Some (''Add '' @ sq @ ''estimated_tokens'' @ sq
                                  @ '' to step params for accurate costing.'') \<rparr>]
       else []) (steps workflow))"

subsection \<open>Resilience rules (rules/resilience.py)\<close>

definition check_missing_on_failure :: "ParsedWorkflow \<Rightarrow> LintFinding list" where
  "check_missing_on_failure workflow =
     concat (map (\<lambda>step.
       if step_type step = LLM \<and> on_failure step = None then
         [\<lparr> rule_id = ''R001'', category = RESILIENCE, severity = WARNING,
             message = ''Step '' @ sq @ id_step step @ sq @ '' has no on_failure handler.'',
             step_id = Some (id_step step),
             suggestion = Some (''Add '' @ sq @ ''on_failure: retry'' @ sq @ '' or '' @ sq
                                  @ ''on_failure: skip'' @ sq @ '' to handle errors.'') \<rparr>]
       else []) (steps workflow))"

definition check_abort_no_fallback :: "ParsedWorkflow \<Rightarrow> LintFinding list" where
  "check_abort_no_fallback workflow =
     concat (map (\<lambda>step.
       if on_failure step = Some ''abort'' \<and> \<not> has_fallback step then
         [\<lparr> rule_id = ''R002'', category = RESILIENCE, severity = WARNING,
             message = ''Step '' @ sq @ id_step step @ sq @ '' uses on_failure: abort ''
               @ ''without a fallback '' @ em_dash @ '' workflow will halt on any error.'',
             step_id = Some (id_step step),
             suggestion = Some (''Add a '' @ sq @ ''fallback'' @ sq @ '' config or use '' @ sq
                                  @ ''on_failure: retry'' @ sq @ ''.'') \<rparr>]
       else []) (steps workflow))"

definition check_retry_no_max :: "ParsedWorkflow \<Rightarrow> LintFinding list" where
  "check_retry_no_max workflow =
     concat (map (\<lambda>step.
       if on_failure step = Some ''retry'' \<and> max_retries step = 0 then
         [\<lparr> rule_id = ''R003'', category = RESILIENCE, severity = INFO,
             message = ''Step '' @ sq @ id_step step @ sq
               @ '' has on_failure: retry but max_retries is 0 (unbounded).'',
             step_id = Some (id_step step),
             suggestion = Some (''Set '' @ sq @ ''max_retries: 3'' @ sq
                                  @ '' to prevent infinite retry loops.'') \<rparr>]
       else []) (steps workflow))"

definition check_shell_no_timeout :: "ParsedWorkflow \<Rightarrow> LintFinding list" where
  "check_shell_no_timeout workflow =
     concat (map (\<lambda>step.
       if step_type step = SHELL \<and> timeout_seconds step = None then
         [\<lparr> rule_id = ''R004'', category = RESILIENCE, severity = WARNING,
             message = ''Shell step '' @ sq @ id_step step @ sq @ '' has no timeout ''
               @ em_dash @ '' may run indefinitely.'',
             step_id = Some (id_step step),
             suggestion = Some (''Add '' @ sq @ ''timeout_seconds: 300'' @ sq
                                  @ '' to prevent hung processes.'') \<rparr>]
       else []) (steps workflow))"

text \<open>The loop of rule R005 with its two counters; it returns at the first step after
  which three LLM steps and 30000 tokens have accumulated.\<close>

fun missing_checkpoint_loop :: "int \<Rightarrow> int \<Rightarrow> ParsedStep list \<Rightarrow> LintFinding list" where
  "missing_checkpoint_loop consecutive_llm expensive_tokens [] = []"
| "missing_checkpoint_loop consecutive_llm expensive_tokens (step # rest) =
     (let (c, e) =
        (if step_type step = LLM then
           (let tokens =
              (case estimated_tokens step of
                 Some t \<Rightarrow> t
               | None \<Rightarrow>
                   if truthy_str (role step)
                      \<and> map_of ROLE_TOKEN_DEFAULTS (the (role step)) \<noteq> None
                   then the (map_of ROLE_TOKEN_DEFAULTS (the (role step)))
                   else table_get STEP_TYPE_TOKEN_DEFAULTS ''llm'' 8000)
            in (consecutive_llm + 1, expensive_tokens + tokens))
         else if step_type step = CHECKPOINT then (0, 0)
         else (consecutive_llm, expensive_tokens))
      in if c \<ge> 3 \<and> e \<ge> 30000 then
           [\<lparr> rule_id = ''R005'', category = RESILIENCE, severity = INFO,
               message = py_str_int c @ '' consecutive LLM steps ('' @ py_fmt_commas e
                 @ '' tokens) without a checkpoint.'',
               step_id = None,
               suggestion =
                 Some ''Add a checkpoint step between expensive groups for recovery.'' \<rparr>]
         else missing_checkpoint_loop c e rest)"

definition check_missing_checkpoint :: "ParsedWorkflow \<Rightarrow> LintFinding list" where
  "check_missing_checkpoint workflow = missing_checkpoint_loop 0 0 (steps workflow)"

subsection \<open>Efficiency rules (rules/efficiency.py)\<close>

text \<open>The body of the loop of rule E001 for one pair of adjacent LLM steps.\<close>

definition parallelizable_pair ::
  "(pyval \<Rightarrow> string) \<Rightarrow> ParsedStep \<Rightarrow> ParsedStep \<Rightarrow> LintFinding list" where
  "parallelizable_pair str_of current next_step =
     (if id_step current \<in> set (depends_on next_step) then []
      else
        (let vals = dict_get_default (raw_params current) ''outputs'' (PList []);
             current_outputs = (case vals of PList vs \<Rightarrow> map (py_str str_of) vs | _ \<Rightarrow> []);
             prompt = py_str str_of (dict_get_default (raw_params next_step) ''prompt'' (PStr []));
             has_dependency =
               list_ex (\<lambda>var. py_in_str (''${'' @ var @ ''}'') prompt) current_outputs
         in if \<not> has_dependency \<and> depends_on next_step = [] then
              [\<lparr> rule_id = ''E001'', category = EFFICIENCY, severity = INFO,
                  message = ''Steps '' @ sq @ id_step current @ sq @ '' and '' @ sq
                    @ id_step next_step @ sq @ '' appear to have no data dependency ''
                    @ em_dash @ '' consider running in parallel.'',
                  step_id = Some (id_step next_step),
                  suggestion = Some (''Wrap in a '' @ sq @ ''parallel'' @ sq
                                       @ '' step or add explicit depends_on.'') \<rparr>]
            else []))"

definition check_parallelizable ::
  "(pyval \<Rightarrow> string) \<Rightarrow> ParsedWorkflow \<Rightarrow> LintFinding list" where
  "check_parallelizable str_of workflow =
     (let llm_steps = filter (\<lambda>s. step_type s = LLM) (steps workflow) in
      concat (map (\<lambda>i. parallelizable_pair str_of (llm_steps ! i) (llm_steps ! (i + 1)))
                  [0 ..< length llm_steps - 1]))"

text \<open>\<^verbatim>\<open>role_steps.setdefault(role, []).append(step_id)\<close> on an insertion-ordered mapping.\<close>

definition setdefault_append ::
  "(string \<times> string list) list \<Rightarrow> string \<Rightarrow> string \<Rightarrow> (string \<times> string list) list" where
  "setdefault_append d k v =
     (if map_of d k = None then d @ [(k, [v])]
      else map (\<lambda>(k', vs). if k' = k then (k', vs @ [v]) else (k', vs)) d)"

definition check_duplicate_roles :: "ParsedWorkflow \<Rightarrow> LintFinding list" where
  "check_duplicate_roles workflow =
     (let role_steps =
            foldl (\<lambda>d step.
                     if step_type step = LLM \<and> truthy_str (role step)
                     then setdefault_append d (the (role step)) (id_step step) else d)
                  [] (steps workflow)
      in concat (map (\<lambda>(role_name, step_ids).
           if length step_ids > 2 then
             [\<lparr> rule_id = ''E002'', category = EFFICIENCY, severity = WARNING,
                 message = ''Role '' @ sq @ role_name @ sq @ '' is assigned to ''
                   @ py_str_int (int (length step_ids)) @ '' steps (''
                   @ py_join '', '' step_ids @ '') '' @ em_dash @ '' possible redundancy.'',
                 step_id = None,
                 suggestion = Some (''Consider consolidating '' @ role_name
                                      @ '' steps or using different roles.'') \<rparr>]
           else []) role_steps))"

text \<open>\<^verbatim>\<open>step.estimated_tokens or 0\<close>.\<close>

definition tokens_or_0 :: "ParsedStep \<Rightarrow> int" where
  "tokens_or_0 step =
     (if truthy_int (estimated_tokens step) then the (estimated_tokens step) else 0)"

definition check_lightweight_checkpoint :: "ParsedWorkflow \<Rightarrow> LintFinding list" where
  "check_lightweight_checkpoint workflow =
     (let ss = steps workflow in
      concat (map (\<lambda>i.
        (let step = ss ! i in
         if step_type step \<noteq> CHECKPOINT then []
         else
           (let prev_tokens = (if i > 0 then tokens_or_0 (ss ! (i - 1)) else 0);
                next_tokens =
                  (if int i < int (length ss) - 1 then tokens_or_0 (ss ! (i + 1)) else 0)
            in if prev_tokens < 5000 \<and> next_tokens < 5000 then
                 [\<lparr> rule_id = ''E003'', category = EFFICIENCY, severity = INFO,
                     message = ''Checkpoint '' @ sq @ id_step step @ sq
                       @ '' is between lightweight steps '' @ em_dash
                       @ '' may add unnecessary overhead.'',
                     step_id = Some (id_step step),
                     suggestion =
                       Some (''Remove checkpoint if recovery isn'' @ sq
                               @ ''t needed at this point.'') \<rparr>]
               else []))) [0 ..< length ss]))"

definition check_fan_out_no_limit :: "ParsedWorkflow \<Rightarrow> LintFinding list" where
  "check_fan_out_no_limit workflow =
     concat (map (\<lambda>step.
       if step_type step = FAN_OUT \<and> dict_get (raw_params step) ''max_concurrent'' = PNone then
         [\<lparr> rule_id = ''E004'', category = EFFICIENCY, severity = WARNING,
             message = ''fan_out step '' @ sq @ id_step step @ sq
               @ '' has no max_concurrent limit '' @ em_dash @ '' may overwhelm resources.'',
             step_id = Some (id_step step),
             suggestion = Some (''Add '' @ sq @ ''max_concurrent: 4'' @ sq
                                  @ '' to limit parallel execution.'') \<rparr>]
       else []) (steps workflow))"

subsection \<open>Security rules (rules/security.py)\<close>

text \<open>
  \<^verbatim>\<open>_SHELL_VAR_PATTERN.search(s)\<close> for the pattern \<^verbatim>\<open>\$\{[^}]+\}\<close>: somewhere in \<open>s\<close>
  stands \<^verbatim>\<open>${\<close>, then at least one character other than \<^verbatim>\<open>}\<close>, then \<^verbatim>\<open>}\<close>.
\<close>

fun shell_var_search :: "string \<Rightarrow> bool" where
  "shell_var_search [] = False"
| "shell_var_search (c # cs) =
     ((c = CHR ''$'' \<and> (case cs of
          [] \<Rightarrow> False
        | d # rest \<Rightarrow> d = CHR ''{''
            \<and> takeWhile (\<lambda>x. x \<noteq> CHR ''}'') rest \<noteq> []
            \<and> dropWhile (\<lambda>x. x \<noteq> CHR ''}'') rest \<noteq> []))
      \<or> shell_var_search cs)"

text \<open>\<^verbatim>\<open>_HARDCODED_PATH_PATTERN.search(s)\<close>: one of six fixed substrings occurs in \<open>s\<close>.\<close>

definition hardcoded_path_search :: "string \<Rightarrow> bool" where
  "hardcoded_path_search s =
     list_ex (\<lambda>p. py_in_str p s)
       [''/usr/'', ''/home/'', ''/etc/'', ''/var/'', ''/opt/'', ''C:'' @ backslash]"

definition check_shell_injection ::
  "(pyval \<Rightarrow> string) \<Rightarrow> ParsedWorkflow \<Rightarrow> LintFinding list" where
  "check_shell_injection str_of workflow =
     concat (map (\<lambda>step.
       if step_type step \<noteq> SHELL then []
       else
         (let command = py_str str_of (dict_get_default (raw_params step) ''command'' (PStr []))
          in if shell_var_search command then
               [\<lparr> rule_id = ''S001'', category = SECURITY, severity = ERROR,
                   message = ''Shell step '' @ sq @ id_step step @ sq
                     @ '' uses variable interpolation in command '' @ em_dash
                     @ '' potential command injection risk.'',
                   step_id = Some (id_step step),
                   suggestion = Some ''Validate inputs or use parameterized execution.'' \<rparr>]
             else [])) (steps workflow))"

definition check_hardcoded_paths ::
  "(pyval \<Rightarrow> string) \<Rightarrow> ParsedWorkflow \<Rightarrow> LintFinding list" where
  "check_hardcoded_paths str_of workflow =
     concat (map (\<lambda>step.
       if step_type step \<noteq> SHELL then []
       else
         (let command = py_str str_of (dict_get_default (raw_params step) ''command'' (PStr []))
          in if hardcoded_path_search command then
               [\<lparr> rule_id = ''S002'', category = SECURITY, severity = WARNING,
                   message = ''Shell step '' @ sq @ id_step step @ sq
                     @ '' contains hardcoded paths '' @ em_dash @ '' may not be portable.'',
                   step_id = Some (id_step step),
                   suggestion =
                     Some ''Use input variables or environment variables for paths.'' \<rparr>]
             else [])) (steps workflow))"

definition check_input_validation :: "ParsedWorkflow \<Rightarrow> LintFinding list" where
  "check_input_validation workflow =
     (if inputs workflow = [] then []
      else concat (map (\<lambda>(input_name, config).
        (case config of
           PDict cfg \<Rightarrow>
             (let is_required = truthy (dict_get_default cfg ''required'' (PBool False));
                  has_type = dict_has cfg ''type''
              in if is_required \<and> \<not> has_type then
                   [\<lparr> rule_id = ''S003'', category = SECURITY, severity = INFO,
                       message = ''Required input '' @ sq @ input_name @ sq
                         @ '' has no type constraint.'',
                       step_id = None,
                       suggestion = Some (''Add '' @ sq @ ''type: string'' @ sq
                           @ '' (or appropriate type) to input '' @ sq @ input_name @ sq
                           @ ''.'') \<rparr>]
                 else [])
         | _ \<Rightarrow> [])) (inputs workflow)))"

definition check_mcp_no_server :: "ParsedWorkflow \<Rightarrow> LintFinding list" where
  "check_mcp_no_server workflow =
     concat (map (\<lambda>step.
       if step_type step \<noteq> MCP_TOOL then []
       else if \<not> truthy (dict_get (raw_params step) ''server'') then
         [\<lparr> rule_id = ''S004'', category = SECURITY, severity = WARNING,
             message = ''MCP tool step '' @ sq @ id_step step @ sq
               @ '' has no server specified '' @ em_dash
               @ '' tool resolution may be ambiguous.'',
             step_id = Some (id_step step),
             suggestion = Some (''Add '' @ sq @ ''server: <name>'' @ sq
                                  @ '' to specify which MCP server to use.'') \<rparr>]
       else []) (steps workflow))"

subsection \<open>Rule registry (rules/__init__.py)\<close>

text \<open>A rule function returns its findings or raises.\<close>

type_synonym RuleFunc = "ParsedWorkflow \<Rightarrow> error + LintFinding list"

record RuleEntry =
  re_rule_id :: string
  re_category :: RuleCategory
  re_severity :: Severity
  re_description :: string
  func :: RuleFunc

text \<open>A rule whose body has no operation that can raise, as a rule function.\<close>

definition returning :: "(ParsedWorkflow \<Rightarrow> LintFinding list) \<Rightarrow> RuleFunc" where
  "returning f workflow = Inr (f workflow)"

text \<open>\<^verbatim>\<open>lint_rule(...)(func)\<close>: the decorator appends one entry to the registry.\<close>

definition lint_rule ::
  "string \<Rightarrow> RuleCategory \<Rightarrow> Severity \<Rightarrow> string \<Rightarrow> RuleFunc \<Rightarrow> RuleEntry list \<Rightarrow> RuleEntry list"
  where
  "lint_rule rid cat sev descr f registry =
     registry @ [\<lparr> re_rule_id = rid, re_category = cat, re_severity = sev,
                    re_description = descr, func = f \<rparr>]"

text \<open>The registrations made by importing each rule module, in the order of its decorators.\<close>

definition import_budget :: "RuleEntry list \<Rightarrow> RuleEntry list" where
  "import_budget =
     lint_rule ''B004'' BUDGET INFO ''LLM step without estimated_tokens''
       (returning check_undeclared_tokens)
     \<circ> lint_rule ''B003'' BUDGET ERROR ''Sum of step estimates exceeds declared budget''
         (returning check_total_over_budget)
     \<circ> lint_rule ''B002'' BUDGET WARNING ''Step estimate exceeds 50% of workflow budget''
         check_step_budget_hog
     \<circ> lint_rule ''B001'' BUDGET WARNING ''No token_budget declared at workflow level''
         (returning check_workflow_budget)"

definition import_resilience :: "RuleEntry list \<Rightarrow> RuleEntry list" where
  "import_resilience =
     lint_rule ''R005'' RESILIENCE INFO ''No checkpoint between expensive step groups''
       (returning check_missing_checkpoint)
     \<circ> lint_rule ''R004'' RESILIENCE WARNING ''Shell step without timeout''
         (returning check_shell_no_timeout)
     \<circ> lint_rule ''R003'' RESILIENCE INFO ''retry without max_retries''
         (returning check_retry_no_max)
     \<circ> lint_rule ''R002'' RESILIENCE WARNING ''on_failure: abort with no fallback''
         (returning check_abort_no_fallback)
     \<circ> lint_rule ''R001'' RESILIENCE WARNING ''LLM step has no on_failure handler''
         (returning check_missing_on_failure)"

definition import_efficiency :: "(pyval \<Rightarrow> string) \<Rightarrow> RuleEntry list \<Rightarrow> RuleEntry list" where
  "import_efficiency str_of =
     lint_rule ''E004'' EFFICIENCY WARNING ''fan_out without max_concurrent limit''
       (returning check_fan_out_no_limit)
     \<circ> lint_rule ''E003'' EFFICIENCY INFO ''Unnecessary checkpoint between lightweight steps''
         (returning check_lightweight_checkpoint)
     \<circ> lint_rule ''E002'' EFFICIENCY WARNING ''Duplicate role assignments''
         (returning check_duplicate_roles)
     \<circ> lint_rule ''E001'' EFFICIENCY INFO ''Sequential LLM steps could be parallel''
         (returning (check_parallelizable str_of))"

definition import_security :: "(pyval \<Rightarrow> string) \<Rightarrow> RuleEntry list \<Rightarrow> RuleEntry list" where
  "import_security str_of =
     lint_rule ''S004'' SECURITY WARNING ''MCP tool step without server validation''
       (returning check_mcp_no_server)
     \<circ> lint_rule ''S003'' SECURITY INFO ''No input validation on required inputs''
         (returning check_input_validation)
     \<circ> lint_rule ''S002'' SECURITY WARNING ''Hardcoded paths in shell commands''
         (returning (check_hardcoded_paths str_of))
     \<circ> lint_rule ''S001'' SECURITY ERROR
         ''Shell step with variable interpolation (command injection risk)''
         (returning (check_shell_injection str_of))"

text \<open>
  The registry once every rule module is registered: \<^verbatim>\<open>linter.py\<close> imports the budget
  and resilience modules when it is loaded, and \<^verbatim>\<open>_import_all_rules\<close> then imports the
  efficiency and security modules, starting from the empty list \<^verbatim>\<open>_RULE_REGISTRY = []\<close>.
\<close>

definition RULE_REGISTRY :: "(pyval \<Rightarrow> string) \<Rightarrow> RuleEntry list" where
  "RULE_REGISTRY str_of =
     import_security str_of (import_efficiency str_of (import_resilience (import_budget [])))"

definition get_all_rules :: "RuleEntry list \<Rightarrow> RuleEntry list" where
  "get_all_rules registry = registry"

definition get_rules_by_category :: "RuleEntry list \<Rightarrow> RuleCategory \<Rightarrow> RuleEntry list" where
  "get_rules_by_category registry cat = filter (\<lambda>r. re_category r = cat) registry"

subsection \<open>Lint engine (linter.py)\<close>

text \<open>The loop of \<^verbatim>\<open>run_lint\<close> over the rules: the findings are appended in order, and an
  exception of a rule function ends the run.\<close>

fun run_rules :: "RuleEntry list \<Rightarrow> ParsedWorkflow \<Rightarrow> error + LintFinding list" where
  "run_rules [] workflow = Inr []"
| "run_rules (rule # rest) workflow =
     (case func rule workflow of
        Inl e \<Rightarrow> Inl e
      | Inr rule_findings \<Rightarrow>
          (case run_rules rest workflow of
             Inl e \<Rightarrow> Inl e
           | Inr later \<Rightarrow> Inr (rule_findings @ later)))"

text \<open>\<open>run_lint\<close> reads the global registry; here the registry is its first argument.\<close>

definition run_lint ::
  "RuleEntry list \<Rightarrow> ParsedWorkflow \<Rightarrow> RuleCategory option \<Rightarrow> Severity option
     \<Rightarrow> error + LintReport" where
  "run_lint registry workflow category_arg severity_arg =
     (let rules = (case category_arg of
                     Some c \<Rightarrow> get_rules_by_category registry c
                   | None \<Rightarrow> get_all_rules registry)
      in case run_rules rules workflow of
           Inl e \<Rightarrow> Inl e
         | Inr all_found \<Rightarrow>
             (let found = (case severity_arg of
                             Some s \<Rightarrow> filter (\<lambda>f. severity f = s) all_found
                           | None \<Rightarrow> all_found);
                  n_error = int (length (filter (\<lambda>f. severity f = ERROR) found));
                  n_warning = int (length (filter (\<lambda>f. severity f = WARNING) found));
                  n_info = int (length (filter (\<lambda>f. severity f = INFO) found));
                  sc = foldl (\<lambda>sc f. sc
                                - table_get SEVERITY_DEDUCTIONS (Severity_value (severity f)) 0)
                             100 found;
                  sc = max 0 sc
              in Inr \<lparr> lr_workflow_name = name workflow, score = sc, findings = found,
                        error_count = n_error, warning_count = n_warning,
                        info_count = n_info \<rparr>))"

subsection \<open>Format detection (parsers/__init__.py)\<close>

definition GORGON_STEP_TYPES :: "string list" where
  "GORGON_STEP_TYPES =
     [''claude_code'', ''openai'', ''shell'', ''parallel'', ''checkpoint'', ''fan_out'',
      ''fan_in'', ''map_reduce'', ''branch'', ''loop'', ''mcp_tool'']"

text \<open>Lists and mappings are unhashable: a membership test of one in a \<^verbatim>\<open>set\<close> raises
  \<^verbatim>\<open>TypeError\<close>. Any other value is hashed and compared; only a string can equal a
  member of a set of strings.\<close>

fun hashable :: "pyval \<Rightarrow> bool" where
  "hashable (PList xs) = False"
| "hashable (PDict kvs) = False"
| "hashable v = True"

definition in_str_set :: "pyval \<Rightarrow> string list \<Rightarrow> error + bool" where
  "in_str_set v members =
     (if \<not> hashable v then Inl TypeError
      else Inr (case v of PStr s \<Rightarrow> s \<in> set members | _ \<Rightarrow> False))"

text \<open>\<^verbatim>\<open>s.lower()\<close> on the ASCII letters; other characters are kept.\<close>

definition py_lower :: "string \<Rightarrow> string" where
  "py_lower s =
     map (\<lambda>c. let n = (of_char c :: nat) in if 65 \<le> n \<and> n \<le> 90 then char_of (n + 32) else c) s"

text \<open>The loop of \<^verbatim>\<open>detect_format\<close> over the items of \<^verbatim>\<open>steps\<close>: \<open>Inr True\<close> when it
  returns the step-graph format, \<open>Inr False\<close> when it runs to the end.\<close>

fun detect_steps_loop :: "pyval list \<Rightarrow> error + bool" where
  "detect_steps_loop [] = Inr False"
| "detect_steps_loop (step # rest) =
     (case step of
        PDict d \<Rightarrow>
          (case in_str_set (dict_get d ''type'') GORGON_STEP_TYPES of
             Inl e \<Rightarrow> Inl e
           | Inr True \<Rightarrow> Inr True
           | Inr False \<Rightarrow> detect_steps_loop rest)
      | _ \<Rightarrow> detect_steps_loop rest)"

definition detect_format :: "(pyval \<Rightarrow> string) \<Rightarrow> pydict \<Rightarrow> error + WorkflowFormat" where
  "detect_format str_of raw =
     (if dict_has raw ''agents'' \<and> dict_has raw ''tasks'' then Inr CREWAI
      else if dict_has raw ''nodes'' \<or> dict_has raw ''edges'' then Inr LANGCHAIN
      else
        (let meta = dict_get_default raw ''metadata'' (PDict []) in
         if (case meta of PDict m \<Rightarrow> py_in_str ''langgraph'' (py_lower (py_str str_of meta))
             | _ \<Rightarrow> False)
         then Inr LANGCHAIN
         else
           (let step_items = dict_get_default raw ''steps'' (PList []) in
            case step_items of
              PList (x # xs) \<Rightarrow>
                (case detect_steps_loop (x # xs) of
                   Inl e \<Rightarrow> Inl e
                 | Inr True \<Rightarrow> Inr GORGON
                 | Inr False \<Rightarrow> Inr GENERIC)
            | _ \<Rightarrow> Inr GENERIC)))"

subsection \<open>Agent/task normalizer (parsers/crewai.py)\<close>

text \<open>
  The constructors \<^verbatim>\<open>ParsedStep(...)\<close> and \<^verbatim>\<open>ParsedWorkflow(...)\<close> are pydantic models:
  they validate the raw values given for their typed fields and raise
  \<^verbatim>\<open>ValidationError\<close> when a value does not fit. Validation is the library's; it enters
  the normalizer as the record \<open>V\<close> of the three validators it applies.
\<close>

record validators =
  v_opt_str :: "pyval \<Rightarrow> error + string option"
  v_opt_int :: "pyval \<Rightarrow> error + int option"
  v_dict :: "pyval \<Rightarrow> error + pydict"

text \<open>\<^verbatim>\<open>a or b\<close> on values.\<close>

definition py_or :: "pyval \<Rightarrow> pyval \<Rightarrow> pyval" where
  "py_or a b = (if truthy a then a else b)"

text \<open>The first \<open>n\<close> characters of a string: each character is a lead byte followed by its
  continuation bytes (\<open>0x80\<close> to \<open>0xBF\<close>).\<close>

fun take_chars :: "nat \<Rightarrow> string \<Rightarrow> string" where
  "take_chars n [] = []"
| "take_chars n (c # cs) =
     (if 128 \<le> (of_char c :: nat) \<and> (of_char c :: nat) < 192 then c # take_chars n cs
      else (case n of 0 \<Rightarrow> [] | Suc m \<Rightarrow> c # take_chars m cs))"

text \<open>\<^verbatim>\<open>v[:40]\<close>: a string is cut to its first 40 characters and a list to its first 40
  items; \<^verbatim>\<open>None\<close>, a boolean or a number is not subscriptable, and a mapping cannot be
  indexed by a slice (\<^verbatim>\<open>TypeError\<close> up to Python 3.11).\<close>

fun py_slice_40 :: "pyval \<Rightarrow> error + pyval" where
  "py_slice_40 (PStr s) = Inr (PStr (take_chars 40 s))"
| "py_slice_40 (PList xs) = Inr (PList (take 40 xs))"
| "py_slice_40 v = Inl TypeError"

text \<open>Iterating a value, as \<^verbatim>\<open>enumerate(v)\<close> does: the items of a list, the keys of a
  mapping, the characters of a string; anything else is not iterable.\<close>

fun py_iter :: "pyval \<Rightarrow> error + pyval list" where
  "py_iter (PList xs) = Inr xs"
| "py_iter (PDict kvs) = Inr (map (\<lambda>kv. PStr (fst kv)) kvs)"
| "py_iter (PStr s) = Inr (map (\<lambda>c. PStr [c]) s)"
| "py_iter v = Inl TypeError"

definition parse_agent ::
  "validators \<Rightarrow> (pyval \<Rightarrow> string) \<Rightarrow> pydict \<Rightarrow> int \<Rightarrow> error + ParsedStep" where
  "parse_agent V str_of agent index =
     (let step_ident = py_str str_of (dict_get_default agent ''name''
                         (dict_get_default agent ''role'' (PStr (''agent_'' @ py_str_int index))));
          role_text = py_str str_of (dict_get_default agent ''role'' (PStr []));
          role_opt = (if role_text \<noteq> [] then Some role_text else None)
      in case v_opt_str V (dict_get agent ''llm_provider'') of
           Inl e \<Rightarrow> Inl e
         | Inr prov \<Rightarrow>
        (case v_opt_str V (py_or (dict_get agent ''llm'') (dict_get agent ''model'')) of
           Inl e \<Rightarrow> Inl e
         | Inr mdl \<Rightarrow>
        (case v_opt_int V (dict_get agent ''max_tokens'') of
           Inl e \<Rightarrow> Inl e
         | Inr toks \<Rightarrow>
             Inr (ParsedStep step_ident LLM prov mdl role_opt toks None 0 None False False
                    [] [] agent))))"

definition parse_task ::
  "validators \<Rightarrow> (pyval \<Rightarrow> string) \<Rightarrow> pydict \<Rightarrow> int \<Rightarrow> error + ParsedStep" where
  "parse_task V str_of task index =
     (case py_slice_40 (dict_get_default task ''description'' (PStr (''task_'' @ py_str_int index)))
      of Inl e \<Rightarrow> Inl e
       | Inr dflt \<Rightarrow>
     (let step_ident = py_str str_of (dict_get_default task ''name'' dflt);
          agent_ref = dict_get task ''agent'';
          deps = (if truthy agent_ref then [py_str str_of agent_ref] else [])
      in case v_opt_str V (dict_get task ''role'') of
           Inl e \<Rightarrow> Inl e
         | Inr role_opt \<Rightarrow>
        (case v_opt_int V (dict_get task ''max_tokens'') of
           Inl e \<Rightarrow> Inl e
         | Inr toks \<Rightarrow>
             Inr (ParsedStep step_ident LLM None None role_opt toks None 0 None False False
                    deps [] task))))"

text \<open>The two loops of \<^verbatim>\<open>parse_crewai\<close>: items that are not mappings are skipped, the index
  counts every item, and the first exception ends the loop.\<close>

fun parse_items ::
  "(pydict \<Rightarrow> int \<Rightarrow> error + ParsedStep) \<Rightarrow> int \<Rightarrow> pyval list \<Rightarrow> error + ParsedStep list" where
  "parse_items parse_one i [] = Inr []"
| "parse_items parse_one i (item # rest) =
     (case item of
        PDict d \<Rightarrow>
          (case parse_one d i of
             Inl e \<Rightarrow> Inl e
           | Inr st \<Rightarrow>
               (case parse_items parse_one (i + 1) rest of
                  Inl e \<Rightarrow> Inl e
                | Inr sts \<Rightarrow> Inr (st # sts)))
      | _ \<Rightarrow> parse_items parse_one (i + 1) rest)"

definition parse_crewai ::
  "validators \<Rightarrow> (pyval \<Rightarrow> string) \<Rightarrow> pydict \<Rightarrow> string option \<Rightarrow> error + ParsedWorkflow" where
  "parse_crewai V str_of raw source_path_arg =
     (let wf_name = py_str str_of (dict_get_default raw ''name''
                      (dict_get_default raw ''crew'' (PStr ''unnamed-crew'')))
      in case py_iter (dict_get_default raw ''agents'' (PList [])) of
           Inl e \<Rightarrow> Inl e
         | Inr agents \<Rightarrow>
        (case parse_items (parse_agent V str_of) 0 agents of
           Inl e \<Rightarrow> Inl e
         | Inr agent_steps \<Rightarrow>
        (case py_iter (dict_get_default raw ''tasks'' (PList [])) of
           Inl e \<Rightarrow> Inl e
         | Inr tasks \<Rightarrow>
        (case parse_items (parse_task V str_of) 0 tasks of
           Inl e \<Rightarrow> Inl e
         | Inr task_steps \<Rightarrow>
        (case v_opt_int V (py_or (dict_get raw ''token_budget'') (dict_get raw ''max_tokens'')) of
           Inl e \<Rightarrow> Inl e
         | Inr budget \<Rightarrow>
        (case v_dict V (dict_get_default raw ''inputs'' (PDict [])) of
           Inl e \<Rightarrow> Inl e
         | Inr inputs_v \<Rightarrow>
        (case v_dict V (dict_get_default raw ''metadata'' (PDict [])) of
           Inl e \<Rightarrow> Inl e
         | Inr metadata_v \<Rightarrow>
             Inr \<lparr> name = wf_name, version = ''1.0'', description = [], format = CREWAI,
                   token_budget = budget, wf_timeout_seconds = None,
                   steps = agent_steps @ task_steps, inputs = inputs_v, outputs = [],
                   metadata = metadata_v, source_path = source_path_arg \<rparr>)))))))"

subsection \<open>The specification's formulation of the resolution chain\<close>

text \<open>The token resolution chain in the words of the specification: the declared estimate;
  else the value of the role in the table of ten archetypes; else the default of the step
  type, 8000 for an LLM call and 0 for every other type.\<close>

definition resolve_tokens_spec :: "ParsedStep \<Rightarrow> int \<times> string" where
  "resolve_tokens_spec step =
     (case estimated_tokens step of
        Some t \<Rightarrow> (t, ''declared'')
      | None \<Rightarrow>
         (case role step of
            Some r \<Rightarrow>
              if r = ''planner'' then (5000, ''archetype'')
              else if r = ''builder'' then (20000, ''archetype'')
              else if r = ''tester'' then (10000, ''archetype'')
              else if r = ''reviewer'' then (5000, ''archetype'')
              else if r = ''architect'' then (8000, ''archetype'')
              else if r = ''documenter'' then (6000, ''archetype'')
              else if r = ''analyst'' then (8000, ''archetype'')
              else if r = ''reporter'' then (4000, ''archetype'')
              else if r = ''visualizer'' then (5000, ''archetype'')
              else if r = ''security_auditor'' then (12000, ''archetype'')
              else (if step_type step = LLM then 8000 else 0, ''default'')
          | None \<Rightarrow> (if step_type step = LLM then 8000 else 0, ''default'')))"

text \<open>The per-severity deduction in the words of the specification.\<close>

fun deduction :: "Severity \<Rightarrow> int" where
  "deduction ERROR = 10"
| "deduction WARNING = 5"
| "deduction INFO = 2"

subsection \<open>The steps that the findings of a rule pertain to\<close>






subsection \<open>The provider and the model a step is estimated with\<close>

text \<open>The provider a step is estimated with: the caller's provider when one is supplied;
  else the step's own non-empty provider; else the workflow-level provider. The model a step
  is estimated with: the step's own non-empty model; else the workflow-level model.\<close>

definition step_provider_of :: "string option \<Rightarrow> string \<Rightarrow> ParsedStep \<Rightarrow> string" where
  "step_provider_of provider_arg wprov step =
     (case provider_arg of
        Some p \<Rightarrow> p
      | None \<Rightarrow> if truthy_str (provider step) then the (provider step) else wprov)"

definition step_model_of :: "string \<Rightarrow> ParsedStep \<Rightarrow> string" where
  "step_model_of wmdl step = (if truthy_str (model step) then the (model step) else wmdl)"

subsection \<open>The detection cascade in the words of the specification\<close>

text \<open>Agent/task when both \<^verbatim>\<open>agents\<close> and \<^verbatim>\<open>tasks\<close> are keys; else node/edge graph when
  \<^verbatim>\<open>nodes\<close> or \<^verbatim>\<open>edges\<close> is a key, or when a \<^verbatim>\<open>metadata\<close> sub-mapping has a string
  representation containing \<^verbatim>\<open>langgraph\<close> in any letter case; else step-graph when
  \<^verbatim>\<open>steps\<close> holds a non-empty list with an item that is a mapping whose \<^verbatim>\<open>type\<close> is in
  the step-graph vocabulary; else generic.\<close>

definition detect_format_spec :: "(pyval \<Rightarrow> string) \<Rightarrow> pydict \<Rightarrow> WorkflowFormat" where
  "detect_format_spec str_of raw =
     (if dict_has raw ''agents'' \<and> dict_has raw ''tasks'' then CREWAI
      else if dict_has raw ''nodes'' \<or> dict_has raw ''edges'' then LANGCHAIN
      else if (\<exists>m. map_of raw ''metadata'' = Some (PDict m)
                 \<and> py_in_str ''langgraph'' (py_lower (py_str str_of (PDict m)))) then LANGCHAIN
      else if (\<exists>xs. map_of raw ''steps'' = Some (PList xs) \<and> xs \<noteq> []
                 \<and> (\<exists>d. PDict d \<in> set xs
                        \<and> (\<exists>s \<in> set GORGON_STEP_TYPES. dict_get d ''type'' = PStr s)))
           then GORGON
      else GENERIC)"

subsection \<open>The condition of rule S003 on the declared inputs\<close>

text \<open>No declared input is required without a type: every input whose specification is a
  mapping with a true \<^verbatim>\<open>required\<close> entry has a \<^verbatim>\<open>type\<close> entry.\<close>

definition inputs_typed :: "ParsedWorkflow \<Rightarrow> bool" where
  "inputs_typed w =
     (\<forall>input_name cfg. (input_name, PDict cfg) \<in> set (inputs w)
        \<longrightarrow> truthy (dict_get_default cfg ''required'' (PBool False))
        \<longrightarrow> dict_has cfg ''type'')"

subsection \<open>Example inputs\<close>

text \<open>An instance of the argument \<open>str_of\<close> for the closed examples below; none of them
  applies it, since they convert no float and no non-empty list or mapping.\<close>

definition str_of_unused :: "pyval \<Rightarrow> string" where
  "str_of_unused v = []"

definition step_run_tests :: ParsedStep where
  "step_run_tests =
     ParsedStep ''run_tests'' SHELL None None None None None 0 None False False [] [] []"

text \<open>A shell step that declares \<open>2^1024\<close> tokens.\<close>

definition step_huge :: ParsedStep where
  "step_huge =
     ParsedStep ''huge'' SHELL None None None (Some (2 ^ 1024)) None 0 None False False [] [] []"

definition wf_empty_no_budget :: ParsedWorkflow where
  "wf_empty_no_budget =
     \<lparr> name = ''test'', version = ''1.0'', description = [], format = GORGON,
       token_budget = None, wf_timeout_seconds = None, steps = [], inputs = [],
       outputs = [], metadata = [], source_path = None \<rparr>"

definition wf_empty_budgeted :: ParsedWorkflow where
  "wf_empty_budgeted = wf_empty_no_budget \<lparr> token_budget := Some 100000 \<rparr>"

definition wf_zero_budget :: ParsedWorkflow where
  "wf_zero_budget = wf_empty_no_budget \<lparr> token_budget := Some 0, steps := [step_run_tests] \<rparr>"


text \<open>A provider table with two models, a workflow whose only step names its own model
  \<^verbatim>\<open>model-a\<close>, and a workflow whose only step names the provider \<^verbatim>\<open>openai\<close>.\<close>

definition example_providers :: providers_table where
  "example_providers =
     [(''anthropic'',
       \<lparr> pc_name = ''anthropic'',
         models =
           [(''model-a'', \<lparr> mp_name = ''model-a'', mp_provider = ''anthropic'',
                input_price_per_1k = Finite (1 / 4), output_price_per_1k = Finite (5 / 4),
                context_window = 200000, mp_notes = [] \<rparr>),
            (''model-b'', \<lparr> mp_name = ''model-b'', mp_provider = ''anthropic'',
                input_price_per_1k = Finite (1 / 2), output_price_per_1k = Finite 2,
                context_window = 200000, mp_notes = [] \<rparr>)],
         default_model = ''model-b'' \<rparr>)]"

definition wf_step_model :: ParsedWorkflow where
  "wf_step_model = wf_empty_no_budget \<lparr> steps :=
     [ParsedStep ''s1'' LLM (Some ''anthropic'') (Some ''model-a'') None (Some 1000) None 0 None
        False False [] [] []] \<rparr>"

definition wf_step_provider :: ParsedWorkflow where
  "wf_step_provider = wf_empty_no_budget \<lparr> steps :=
     [ParsedStep ''s1'' LLM (Some ''openai'') None None (Some 1000) None 0 None
        False False [] [] []] \<rparr>"


text \<open>The inputs at which detection and normalization raise.\<close>

definition raw_unhashable_type :: pydict where
  "raw_unhashable_type = [(''steps'', PList [PDict [(''type'', PList [PStr ''shell''])]])]"

definition raw_numeric_description :: pydict where
  "raw_numeric_description =
     [(''agents'', PList []), (''tasks'', PList [PDict [(''description'', PInt 42)]])]"

section \<open>The input/output token split\<close>

text \<open>Rounding to nearest: \<open>rne\<close> is exact on integers, stays within one half of
  its argument, and returns the one integer that is nearer than one half.\<close>

lemma rne_of_int: "rne (of_int k) = k"
  by (simp add: rne_def)

lemma rne_near: "\<bar>of_int (rne y) - y\<bar> \<le> 1 / 2"
proof -
  have "of_int \<lfloor>y\<rfloor> \<le> y" "y < of_int \<lfloor>y\<rfloor> + 1" by linarith+
  then show ?thesis
    by (auto simp: rne_def Let_def)
qed

lemma rne_ge_floor: "\<lfloor>y\<rfloor> \<le> rne y"
  by (simp add: rne_def Let_def)

lemma rne_unique:
  assumes "\<bar>y - of_int k\<bar> < 1 / 2"
  shows "rne y = k"
proof -
  from assms have a: "of_int k - 1 / 2 < y" "y < of_int k + 1 / 2" by linarith+
  have "\<lfloor>y\<rfloor> = k \<or> \<lfloor>y\<rfloor> = k - 1"
  proof -
    have "of_int (k - 1) \<le> y" using a by simp
    then have "k - 1 \<le> \<lfloor>y\<rfloor>" by (simp only: le_floor_iff)
    moreover have "y < of_int (k + 1)" using a by simp
    then have "\<lfloor>y\<rfloor> < k + 1" by (simp only: floor_less_iff)
    ultimately show ?thesis by linarith
  qed
  then show ?thesis
  proof
    assume f: "\<lfloor>y\<rfloor> = k"
    then show ?thesis using a by (simp add: rne_def Let_def)
  next
    assume f: "\<lfloor>y\<rfloor> = k - 1"
    then show ?thesis using a by (auto simp: rne_def Let_def)
  qed
qed

text \<open>Rounding at most doubles the magnitude.\<close>

lemma rne_abs_le: "\<bar>of_int (rne y) :: rat\<bar> \<le> 2 * \<bar>y\<bar>"
proof (cases "\<bar>y\<bar> < 1 / 2")
  case True
  then have "\<bar>y - of_int 0\<bar> < 1 / 2" by simp
  then have "rne y = 0" by (rule rne_unique)
  then show ?thesis by simp
next
  case False
  with rne_near [of y] show ?thesis by linarith
qed

lemma fl_abs_le: "\<bar>fl x\<bar> \<le> 2 * \<bar>x\<bar>"
proof (cases "x = 0")
  case True
  then show ?thesis by (simp add: fl_def)
next
  case False
  define p :: rat where "p = power_int 2 (max (ilog2 \<bar>x\<bar> - 52) (- 1074))"
  have p: "0 < p" by (simp add: p_def)
  have "fl x = of_int (rne (x / p)) * p" using False by (simp add: fl_def Let_def p_def)
  then have "\<bar>fl x\<bar> = \<bar>of_int (rne (x / p)) :: rat\<bar> * p" using p by (simp add: abs_mult)
  also have "\<dots> \<le> (2 * \<bar>x / p\<bar>) * p"
    using rne_abs_le [of "x / p"] p by (simp only: mult_le_cancel_right_pos)
  also have "\<dots> = 2 * \<bar>x\<bar>" using p by (simp add: abs_divide)
  finally show ?thesis .
qed

lemma fl_repr:
  assumes "1 \<le> x" "x < 2 ^ 53"
  obtains d :: nat where "d \<le> 52" "2 ^ 52 \<le> x * 2 ^ d" "x * 2 ^ d < 2 ^ 53"
    "fl x = of_int (rne (x * 2 ^ d)) / 2 ^ d"
proof -
  define b where "b = bitlen \<lfloor>x\<rfloor>"
  have fpos: "0 < \<lfloor>x\<rfloor>" using assms by simp
  from bitlen_bounds [OF fpos]
  have lo: "2 ^ nat (b - 1) \<le> \<lfloor>x\<rfloor>" and hi: "\<lfloor>x\<rfloor> < 2 ^ nat b"
    by (simp_all add: b_def)
  have b1: "1 \<le> b" using fpos by (auto simp: b_def bitlen_alt_def)
  have xlo: "(2::rat) ^ nat (b - 1) \<le> x"
  proof -
    have "(of_int (2 ^ nat (b - 1)) :: rat) \<le> of_int \<lfloor>x\<rfloor>" using lo by (simp only: of_int_le_iff)
    also have "\<dots> \<le> x" by simp
    finally show ?thesis by simp
  qed
  have xhi: "x < (2::rat) ^ nat b"
  proof -
    have "\<lfloor>x\<rfloor> + 1 \<le> 2 ^ nat b" using hi by simp
    then have "(of_int (\<lfloor>x\<rfloor> + 1) :: rat) \<le> of_int (2 ^ nat b)" by (simp only: of_int_le_iff)
    moreover have "x < of_int (\<lfloor>x\<rfloor> + 1)" by linarith
    ultimately show ?thesis by simp
  qed
  have k52: "nat (b - 1) \<le> 52"
  proof (rule ccontr)
    assume "\<not> nat (b - 1) \<le> 52"
    then have "53 \<le> nat (b - 1)" by simp
    then have "(2::rat) ^ 53 \<le> 2 ^ nat (b - 1)" by (intro power_increasing) simp_all
    with xlo assms show False by simp
  qed
  define d where "d = 52 - nat (b - 1)"
  have dk: "nat (b - 1) + d = 52" using k52 by (simp add: d_def)
  have nb: "nat b = nat (b - 1) + 1" using b1 by simp
  have e: "max (ilog2 x - 52) (- 1074) = - int d"
    using assms b1 k52 by (simp add: ilog2_def b_def [symmetric] d_def)
  have p: "power_int (2::rat) (- int d) = 1 / 2 ^ d"
    by (simp add: power_int_minus_divide)
  have "fl x = of_int (rne (x * 2 ^ d)) / 2 ^ d"
    using assms by (simp add: fl_def e p Let_def)
  moreover have "(2::rat) ^ 52 \<le> x * 2 ^ d"
  proof -
    have "(2::rat) ^ 52 = 2 ^ nat (b - 1) * 2 ^ d" by (simp only: dk [symmetric] power_add)
    also have "\<dots> \<le> x * 2 ^ d" using xlo by simp
    finally show ?thesis .
  qed
  moreover have "x * 2 ^ d < (2::rat) ^ 53"
  proof -
    have "x * 2 ^ d < 2 ^ nat b * 2 ^ d" using xhi by simp
    also have "\<dots> = 2 ^ 53" using dk nb by (simp add: power_add [symmetric] del: power_Suc)
    finally show ?thesis .
  qed
  moreover have "d \<le> 52" by (simp add: d_def)
  ultimately show ?thesis using that by blast
qed

lemma ratio_value: "INPUT_OUTPUT_RATIO = 5404319552844595 / 2 ^ 54"
  by code_simp

lemma ratio_alt: "INPUT_OUTPUT_RATIO = 3 / 10 - 1 / (5 * 2 ^ 54)"
  by (simp add: ratio_value)

lemma fl_0: "fl 0 = 0"
  by (simp add: fl_def)

lemma fl_of_int_exact:
  assumes "0 \<le> T" "T < 2 ^ 53"
  shows "fl (of_int T) = of_int T"
proof (cases "T = 0")
  case True
  then show ?thesis by (simp add: fl_0)
next
  case False
  with assms have "1 \<le> (of_int T :: rat)" by simp
  moreover have "(of_int T :: rat) < 2 ^ 53"
  proof -
    have "(of_int T :: rat) < of_int (2 ^ 53)" using assms by (simp only: of_int_less_iff)
    then show ?thesis by simp
  qed
  ultimately obtain d :: nat where
    d: "fl (of_int T) = of_int (rne (of_int T * 2 ^ d)) / 2 ^ d"
    by (rule fl_repr)
  have "(of_int T :: rat) * 2 ^ d = of_int (T * 2 ^ d)" by simp
  then have "rne (of_int T * 2 ^ d) = T * 2 ^ d" by (simp only: rne_of_int)
  with d show ?thesis by simp
qed

text \<open>The product of \<open>T\<close> and the double 0.3 lies below \<open>2^51\<close> up to \<open>T = 7505999378950826\<close>;
  there the doubles are a quarter apart or closer, and the rounded product has the floor
  of three tenths of \<open>T\<close>.\<close>

lemma split_large:
  assumes "4 \<le> T" "T \<le> 7505999378950826"
  shows "\<lfloor>fl (of_int T * INPUT_OUTPUT_RATIO)\<rfloor> = (3 * T) div 10"
proof -
  define t :: rat where "t = of_int T"
  define x :: rat where "x = t * INPUT_OUTPUT_RATIO"
  define N where "N = (3 * T) div 10"
  define r where "r = (3 * T) mod 10"
  define dl :: rat where "dl = t / (5 * 2 ^ 54)"
  have t4: "4 \<le> t" using assms by (simp add: t_def)
  have tle: "t \<le> 7505999378950826"
  proof -
    have "(of_int T :: rat) \<le> of_int 7505999378950826" using assms by (simp only: of_int_le_iff)
    then show ?thesis by (simp add: t_def)
  qed
  have xeq: "x = 3 * t / 10 - dl" by (simp add: x_def dl_def ratio_alt algebra_simps)
  have teq: "t = 5 * 2 ^ 54 * dl" by (simp add: dl_def)
  have dl_pos: "0 < dl" using t4 by (simp add: dl_def)
  have dl_small: "dl < 1 / 10" using tle by (simp add: dl_def)
  have x_ge: "t / 5 \<le> x" using t4 by (simp add: x_def ratio_value)
  have x1: "1 \<le> x" using t4 by (simp add: x_def ratio_value)
  have x51: "x < 2 ^ 51" using tle t4 by (simp add: x_def ratio_value)
  then have x53: "x < 2 ^ 53" by simp
  from fl_repr [OF x1 x53] obtain d :: nat where
    dlo: "2 ^ 52 \<le> x * 2 ^ d" and dhi: "x * 2 ^ d < 2 ^ 53"
    and flx: "fl x = of_int (rne (x * 2 ^ d)) / 2 ^ d" by blast
  have T3: "3 * T = 10 * N + r" by (simp add: N_def r_def)
  have r_range: "0 \<le> r" "r < 10" by (simp_all add: r_def)
  have t3: "3 * t / 10 = of_int N + of_int r / 10"
  proof -
    have "3 * t = of_int (3 * T)" by (simp add: t_def)
    also have "\<dots> = of_int (10 * N + r)" by (simp only: T3)
    finally show ?thesis by simp
  qed
  have pd: "(0::rat) < 2 ^ d" by simp
  have Nd: "of_int N * (2::rat) ^ d = of_int (N * 2 ^ d)" by simp
  show ?thesis
  proof (cases "r = 0")
    case True
    then have xN: "x = of_int N - dl" using xeq t3 by simp
    have "t / 5 * 2 ^ d \<le> x * 2 ^ d" using x_ge pd by (simp only: mult_le_cancel_right_pos)
    with dhi have "t / 5 * 2 ^ d < 2 ^ 53" by linarith
    then have "dl * 2 ^ d < 1 / 2" by (simp add: dl_def)
    moreover have "x * 2 ^ d - of_int (N * 2 ^ d) = - (dl * 2 ^ d)"
      by (simp add: xN algebra_simps)
    moreover have "0 < dl * 2 ^ d" using dl_pos pd by simp
    ultimately have "\<bar>x * 2 ^ d - of_int (N * 2 ^ d)\<bar> < 1 / 2" by linarith
    then have "rne (x * 2 ^ d) = N * 2 ^ d" by (rule rne_unique)
    then have "fl x = of_int N" using flx by simp
    then show ?thesis by (simp add: x_def t_def N_def)
  next
    case False
    with r_range have r1: "1 \<le> r" "r \<le> 9" by simp_all
    then have rr: "(1::rat) / 10 \<le> of_int r / 10" "(of_int r :: rat) / 10 \<le> 9 / 10"
      by simp_all
    text \<open>The grid step \<open>1 / 2^d\<close> is at most a quarter.\<close>
    have "(2::rat) ^ 52 < 2 ^ 51 * 2 ^ d"
    proof -
      have "x * 2 ^ d < 2 ^ 51 * 2 ^ d" using x51 pd by (simp only: mult_less_cancel_right_pos)
      with dlo show ?thesis by linarith
    qed
    then have d2: "(2::rat) < 2 ^ d" by simp
    have d4: "(4::rat) \<le> 2 ^ d"
    proof -
      have "1 < d"
      proof (rule ccontr)
        assume "\<not> 1 < d"
        then have "d = 0 \<or> d = 1" by linarith
        with d2 show False by auto
      qed
      then have "(2::rat) ^ 2 \<le> 2 ^ d" by (intro power_increasing) simp_all
      then show ?thesis by simp
    qed
    text \<open>The product is at least \<open>N\<close>, a point of the grid, so its rounding is too.\<close>
    have "of_int (N * 2 ^ d) \<le> x * 2 ^ d"
    proof -
      have "of_int N \<le> x" using xeq t3 rr dl_small by linarith
      then have "of_int N * 2 ^ d \<le> x * 2 ^ d" using pd by (simp only: mult_le_cancel_right_pos)
      then show ?thesis by (simp only: Nd)
    qed
    then have "N * 2 ^ d \<le> \<lfloor>x * 2 ^ d\<rfloor>" by (simp only: le_floor_iff)
    with rne_ge_floor [of "x * 2 ^ d"] have "N * 2 ^ d \<le> rne (x * 2 ^ d)" by linarith
    then have "(of_int (N * 2 ^ d) :: rat) \<le> of_int (rne (x * 2 ^ d))"
      by (simp only: of_int_le_iff)
    then have "of_int N * 2 ^ d \<le> (of_int (rne (x * 2 ^ d)) :: rat)" by (simp only: Nd)
    then have lower: "of_int N \<le> fl x" using pd by (simp add: flx pos_le_divide_eq)
    text \<open>The product stays more than half a grid step below \<open>N + 1\<close>.\<close>
    have sixth: "1 / 6 < dl * 2 ^ d"
    proof -
      have "x < 3 * t / 10" using xeq dl_pos by linarith
      then have "x * 2 ^ d < 3 * t / 10 * 2 ^ d" using pd by (simp only: mult_less_cancel_right_pos)
      with dlo have "2 ^ 52 < 3 * t / 10 * 2 ^ d" by linarith
      then show ?thesis by (simp add: teq)
    qed
    have tenth: "4 / 10 \<le> 1 / 10 * (2::rat) ^ d" using d4 by simp
    have "x * 2 ^ d \<le> (of_int N + 9 / 10 - dl) * 2 ^ d"
    proof -
      have "x \<le> of_int N + 9 / 10 - dl" using xeq t3 rr by linarith
      then show ?thesis using pd by (simp only: mult_le_cancel_right_pos)
    qed
    also have "\<dots> = (of_int N + 1) * 2 ^ d - (1 / 10 * 2 ^ d + dl * 2 ^ d)"
      by (simp add: algebra_simps)
    finally have "x * 2 ^ d < (of_int N + 1) * 2 ^ d - 1 / 2" using sixth tenth by linarith
    with rne_near [of "x * 2 ^ d"]
    have "of_int (rne (x * 2 ^ d)) < (of_int N + 1) * (2::rat) ^ d" by linarith
    then have upper: "fl x < of_int N + 1" using pd by (simp add: flx pos_divide_less_eq)
    from lower upper have "\<lfloor>fl x\<rfloor> = N" by (simp add: floor_unique)
    then show ?thesis by (simp add: x_def t_def N_def)
  qed
qed


lemma ratio_bounds: "0 < INPUT_OUTPUT_RATIO" "INPUT_OUTPUT_RATIO < 1 / 2"
  by (simp_all add: ratio_value)

lemma split_tokens_overflow:
  assumes "2 ^ 1024 - 2 ^ 970 \<le> \<bar>T\<bar>"
  shows "split_tokens T = Inl OverflowError"
proof -
  have "(of_int (2 ^ 1024 - 2 ^ 970) :: rat) \<le> of_int \<bar>T\<bar>"
    using assms by (simp only: of_int_le_iff)
  then have "DBL_OVERFLOW \<le> \<bar>of_int T :: rat\<bar>" by (simp add: DBL_OVERFLOW_def)
  then show ?thesis by (simp add: split_tokens_def py_float_of_int_def)
qed

lemma split_tokens_returns:
  assumes "\<bar>T\<bar> < 2 ^ 1024 - 2 ^ 970"
  shows "\<exists>i. split_tokens T = Inr (i, T - i)"
proof -
  have "(of_int \<bar>T\<bar> :: rat) < of_int (2 ^ 1024 - 2 ^ 970)"
    using assms by (simp only: of_int_less_iff)
  then have small: "\<bar>of_int T :: rat\<bar> < DBL_OVERFLOW" by (simp add: DBL_OVERFLOW_def)
  then have conv: "py_float_of_int T = Inr (Finite (fl (of_int T)))"
    by (simp add: py_float_of_int_def)
  define a :: rat where "a = fl (of_int T)"
  have "\<bar>a * INPUT_OUTPUT_RATIO\<bar> = \<bar>a\<bar> * INPUT_OUTPUT_RATIO"
    using ratio_bounds by (simp add: abs_mult)
  also have "\<dots> \<le> \<bar>a\<bar> * (1 / 2)"
    using ratio_bounds by (intro mult_left_mono) simp_all
  also have "\<dots> \<le> \<bar>of_int T\<bar>"
    using fl_abs_le [of "of_int T"] by (simp add: a_def)
  finally have "\<bar>a * INPUT_OUTPUT_RATIO\<bar> < DBL_OVERFLOW" using small by linarith
  then have "to_double (a * INPUT_OUTPUT_RATIO) = Finite (fl (a * INPUT_OUTPUT_RATIO))"
    by (auto simp: to_double_def)
  then show ?thesis
    by (simp add: split_tokens_def conv a_def [symmetric] Let_def)
qed

lemma split_tokens_small:
  assumes "0 \<le> T" "T < 2 ^ 53"
  shows "split_tokens T
    = Inr (\<lfloor>fl (of_int T * INPUT_OUTPUT_RATIO)\<rfloor>, T - \<lfloor>fl (of_int T * INPUT_OUTPUT_RATIO)\<rfloor>)"
proof -
  have "(of_int T :: rat) < of_int (2 ^ 53)" using assms by (simp only: of_int_less_iff)
  then have t53: "(of_int T :: rat) < 2 ^ 53" by simp
  have t0: "(0::rat) \<le> of_int T" using assms by simp
  have conv: "py_float_of_int T = Inr (Finite (of_int T))"
    using t53 t0 by (simp add: py_float_of_int_def DBL_OVERFLOW_def fl_of_int_exact [OF assms])
  have p0: "0 \<le> of_int T * INPUT_OUTPUT_RATIO" using t0 ratio_bounds by simp
  have "of_int T * INPUT_OUTPUT_RATIO \<le> of_int T * (1 / 2)"
    using t0 ratio_bounds by (intro mult_left_mono) simp_all
  with t53 have "of_int T * INPUT_OUTPUT_RATIO < DBL_OVERFLOW"
    by (simp add: DBL_OVERFLOW_def)
  with p0 have td: "to_double (of_int T * INPUT_OUTPUT_RATIO)
      = Finite (fl (of_int T * INPUT_OUTPUT_RATIO))"
    by (auto simp: to_double_def DBL_OVERFLOW_def)
  have "0 \<le> \<lfloor>of_int T * INPUT_OUTPUT_RATIO\<rfloor>" using p0 by simp
  have f0: "0 \<le> fl (of_int T * INPUT_OUTPUT_RATIO)"
  proof (cases "of_int T * INPUT_OUTPUT_RATIO = 0")
    case True
    then have "fl (of_int T * INPUT_OUTPUT_RATIO) = 0" by (simp only: fl_0)
    then show ?thesis by simp
  next
    case False
    define p :: rat where
      "p = power_int 2 (max (ilog2 \<bar>of_int T * INPUT_OUTPUT_RATIO\<bar> - 52) (- 1074))"
    have p: "0 < p" by (simp add: p_def)
    have flp: "fl (of_int T * INPUT_OUTPUT_RATIO)
        = of_int (rne (of_int T * INPUT_OUTPUT_RATIO / p)) * p"
      using False by (simp add: fl_def Let_def p_def)
    have "0 \<le> of_int T * INPUT_OUTPUT_RATIO / p" using p0 p by simp
    then have "0 \<le> \<lfloor>of_int T * INPUT_OUTPUT_RATIO / p\<rfloor>" by simp
    with rne_ge_floor [of "of_int T * INPUT_OUTPUT_RATIO / p"]
    have "0 \<le> rne (of_int T * INPUT_OUTPUT_RATIO / p)" by linarith
    then show ?thesis using p by (simp add: flp)
  qed
  show ?thesis
    by (simp add: split_tokens_def conv td f0 Let_def)
qed

lemma rounded_products:
  "\<lfloor>fl (of_int 0 * INPUT_OUTPUT_RATIO)\<rfloor> = 0"
  "\<lfloor>fl (of_int 1 * INPUT_OUTPUT_RATIO)\<rfloor> = 0"
  "\<lfloor>fl (of_int 2 * INPUT_OUTPUT_RATIO)\<rfloor> = 0"
  "\<lfloor>fl (of_int 3 * INPUT_OUTPUT_RATIO)\<rfloor> = 0"
  "\<lfloor>fl (of_int 7505999378950827 * INPUT_OUTPUT_RATIO)\<rfloor> = 2251799813685248"
  "\<lfloor>fl (of_int 7505999378950828 * INPUT_OUTPUT_RATIO)\<rfloor> = 2251799813685248"
  "\<lfloor>fl (of_int 7505999378950829 * INPUT_OUTPUT_RATIO)\<rfloor> = 2251799813685248"
  "\<lfloor>fl (of_int 7505999378950830 * INPUT_OUTPUT_RATIO)\<rfloor> = 2251799813685249"
  "\<lfloor>fl (of_int 7505999378950831 * INPUT_OUTPUT_RATIO)\<rfloor> = 2251799813685249"
  "\<lfloor>fl (of_int 7505999378950832 * INPUT_OUTPUT_RATIO)\<rfloor> = 2251799813685249"
  "\<lfloor>fl (of_int 7505999378950833 * INPUT_OUTPUT_RATIO)\<rfloor> = 2251799813685250"
  "\<lfloor>fl (of_int 10000 * INPUT_OUTPUT_RATIO)\<rfloor> = 3000"
  "\<lfloor>fl (of_int 1000 * INPUT_OUTPUT_RATIO)\<rfloor> = 300"
  by code_simp+

lemma split_values:
  "split_tokens 0 = Inr (0, 0)"
  "split_tokens 1 = Inr (0, 1)"
  "split_tokens 2 = Inr (0, 2)"
  "split_tokens 3 = Inr (0, 3)"
  "split_tokens 7505999378950827 = Inr (2251799813685248, 5254199565265579)"
  "split_tokens 7505999378950828 = Inr (2251799813685248, 5254199565265580)"
  "split_tokens 7505999378950829 = Inr (2251799813685248, 5254199565265581)"
  "split_tokens 7505999378950830 = Inr (2251799813685249, 5254199565265581)"
  "split_tokens 7505999378950831 = Inr (2251799813685249, 5254199565265582)"
  "split_tokens 7505999378950832 = Inr (2251799813685249, 5254199565265583)"
  "split_tokens 7505999378950833 = Inr (2251799813685250, 5254199565265583)"
  "split_tokens 10000 = Inr (3000, 7000)"
  "split_tokens 1000 = Inr (300, 700)"
  using rounded_products
    split_tokens_small [of 0] split_tokens_small [of 1] split_tokens_small [of 2]
    split_tokens_small [of 3] split_tokens_small [of 7505999378950827]
    split_tokens_small [of 7505999378950828] split_tokens_small [of 7505999378950829]
    split_tokens_small [of 7505999378950830] split_tokens_small [of 7505999378950831]
    split_tokens_small [of 7505999378950832] split_tokens_small [of 7505999378950833]
    split_tokens_small [of 10000] split_tokens_small [of 1000]
  by simp_all

lemma floor_three_tenths: "\<lfloor>3 / 10 * (of_int T :: rat)\<rfloor> = (3 * T) div 10"
proof -
  have "3 / 10 * (of_int T :: rat) = of_int (3 * T) / of_int 10" by simp
  then show ?thesis by (simp only: floor_divide_of_int_eq)
qed

lemma split_tokens_floor:
  assumes "0 \<le> T" "T < 7505999378950833"
  shows "split_tokens T = Inr ((3 * T) div 10, T - (3 * T) div 10)"
proof -
  consider "T \<le> 3" | "4 \<le> T" "T \<le> 7505999378950826" | "7505999378950827 \<le> T"
    by linarith
  then show ?thesis
  proof cases
    case 1
    with assms have "T = 0 \<or> T = 1 \<or> T = 2 \<or> T = 3" by linarith
    then show ?thesis using split_values by auto
  next
    case 2
    have "T < 2 ^ 53" using 2 by simp
    from split_tokens_small [OF assms(1) this] split_large [OF 2] show ?thesis by simp
  next
    case 3
    with assms have "T = 7505999378950827 \<or> T = 7505999378950828 \<or> T = 7505999378950829
       \<or> T = 7505999378950830 \<or> T = 7505999378950831 \<or> T = 7505999378950832" by linarith
    then show ?thesis using split_values by auto
  qed
qed

text \<open>
  C6 (as amended). Whenever \<open>split_tokens\<close> returns a pair for the total \<open>T\<close>, its two
  parts add up to \<open>T\<close>; it returns a pair exactly when \<open>|T| < 2^1024 - 2^970\<close> (beyond that
  the conversion of \<open>T\<close> to a float raises \<^verbatim>\<open>OverflowError\<close>); and for every \<open>T\<close> with
  \<open>0 \<le> T < 7505999378950833\<close> the input part is exactly the floor of three tenths of \<open>T\<close>.
\<close>

theorem split_tokens_exact:
  "(\<forall>inp outp. split_tokens T = Inr (inp, outp) \<longrightarrow> inp + outp = T)
   \<and> ((\<exists>r. split_tokens T = Inr r) \<longleftrightarrow> \<bar>T\<bar> < 2 ^ 1024 - 2 ^ 970)
   \<and> (0 \<le> T \<and> T < 7505999378950833
        \<longrightarrow> (\<exists>outp. split_tokens T = Inr (\<lfloor>3 / 10 * (of_int T :: rat)\<rfloor>, outp)))"
proof -
  have sum: "\<forall>inp outp. split_tokens T = Inr (inp, outp) \<longrightarrow> inp + outp = T"
    by (auto simp: split_tokens_def Let_def split: sum.splits)
  have ret: "(\<exists>r. split_tokens T = Inr r) \<longleftrightarrow> \<bar>T\<bar> < 2 ^ 1024 - 2 ^ 970"
  proof
    assume "\<exists>r. split_tokens T = Inr r"
    then show "\<bar>T\<bar> < 2 ^ 1024 - 2 ^ 970"
      using split_tokens_overflow [of T] by (cases "\<bar>T\<bar> < 2 ^ 1024 - 2 ^ 970") auto
  next
    assume "\<bar>T\<bar> < 2 ^ 1024 - 2 ^ 970"
    then show "\<exists>r. split_tokens T = Inr r" using split_tokens_returns by blast
  qed
  have "0 \<le> T \<and> T < 7505999378950833
        \<longrightarrow> (\<exists>outp. split_tokens T = Inr (\<lfloor>3 / 10 * (of_int T :: rat)\<rfloor>, outp))"
    using split_tokens_floor [of T] unfolding floor_three_tenths by simp
  with sum ret show ?thesis by blast
qed

text \<open>The split of 10000 tokens is 3000 and 7000.\<close>

theorem split_tokens_exact_witness:
  "(0::int) \<le> 10000 \<and> (10000::int) < 7505999378950833 \<and> \<bar>10000::int\<bar> < 2 ^ 1024 - 2 ^ 970
   \<and> split_tokens 10000 = Inr (3000, 7000)
   \<and> \<lfloor>3 / 10 * (of_int 10000 :: rat)\<rfloor> = 3000 \<and> (3000::int) + 7000 = 10000"
proof -
  from split_tokens_exact [of 10000]
  obtain outp where "split_tokens 10000 = Inr (\<lfloor>3 / 10 * (of_int 10000 :: rat)\<rfloor>, outp)"
    and "\<forall>inp outp. split_tokens 10000 = Inr (inp, outp) \<longrightarrow> inp + outp = 10000"
    by auto
  then have "split_tokens 10000 = Inr (3000, 7000)" by auto
  then show ?thesis by simp
qed

text \<open>At \<open>T = 7505999378950833\<close> the double product \<open>T * 0.3\<close> rounds up to the next
  integer: the input part is one more than the floor of three tenths of \<open>T\<close>.\<close>

theorem split_tokens_floor_counterexample:
  "split_tokens 7505999378950833 = Inr (2251799813685250, 5254199565265583)
   \<and> \<lfloor>3 / 10 * (of_int 7505999378950833 :: rat)\<rfloor> = 2251799813685249"
proof -
  have "\<lfloor>3 / 10 * (of_int 7505999378950833 :: rat)\<rfloor> = 2251799813685249"
    by (simp only: floor_three_tenths)
  then show ?thesis using split_values(11) by simp
qed

section \<open>Properties of the estimation engine\<close>

text \<open>
  C4. For every step, \<open>resolve_tokens\<close> follows the three-step priority chain: the declared
  estimate tagged "declared" whenever one is present; else, when the role is a key of the
  ten-entry role table, that table's value tagged "archetype"; else the step-type default
  tagged "default" (8000 for an LLM call, 0 for every other step type).
\<close>

theorem resolve_tokens_priority_chain:
  "resolve_tokens step = resolve_tokens_spec step"
  unfolding resolve_tokens_def resolve_tokens_spec_def ROLE_TOKEN_DEFAULTS_def
    STEP_TYPE_TOKEN_DEFAULTS_def table_get_def truthy_str_def
  by (cases "step_type step") (auto split: option.splits)

text \<open>
  C9 (as amended). For a step whose type is not an LLM call, the result of \<open>estimate_step\<close>
  is the same for every two provider tables, so the pricing lookup plays no part in it and
  it is never a \<open>PricingError\<close>. When the resolved total of the step is below
  \<open>2^1024 - 2^970\<close> in magnitude the result is an estimate with cost 0; for a larger total
  the token split, which precedes the test of the step type, raises \<^verbatim>\<open>OverflowError\<close>.
\<close>

theorem estimate_step_non_llm_free:
  assumes "step_type step \<noteq> LLM"
  shows "estimate_step providers step prov mdl = estimate_step providers' step prov mdl
       \<and> estimate_step providers step prov mdl \<noteq> Inl PricingError
       \<and> (\<bar>fst (container_tokens step)\<bar> < 2 ^ 1024 - 2 ^ 970
            \<longrightarrow> (\<exists>est. estimate_step providers step prov mdl = Inr est
                       \<and> cost_usd est = Finite 0))
       \<and> (2 ^ 1024 - 2 ^ 970 \<le> \<bar>fst (container_tokens step)\<bar>
            \<longrightarrow> estimate_step providers step prov mdl = Inl OverflowError)"
proof -
  obtain tot src where c: "container_tokens step = (tot, src)"
    by (cases "container_tokens step")
  have same: "estimate_step providers step prov mdl = estimate_step providers' step prov mdl"
    using assms by (simp add: estimate_step_def c split: sum.splits)
  have ret: "\<exists>est. estimate_step providers step prov mdl = Inr est \<and> cost_usd est = Finite 0"
    if "\<bar>tot\<bar> < 2 ^ 1024 - 2 ^ 970"
  proof -
    from split_tokens_returns [OF that] obtain i where "split_tokens tot = Inr (i, tot - i)"
      by blast
    then show ?thesis using assms by (simp add: estimate_step_def c)
  qed
  have ovf: "estimate_step providers step prov mdl = Inl OverflowError"
    if "2 ^ 1024 - 2 ^ 970 \<le> \<bar>tot\<bar>"
    using split_tokens_overflow [OF that] by (simp add: estimate_step_def c)
  have "estimate_step providers step prov mdl \<noteq> Inl PricingError"
  proof (cases "\<bar>tot\<bar> < 2 ^ 1024 - 2 ^ 970")
    case True
    from ret [OF True] show ?thesis by auto
  next
    case False
    then have "2 ^ 1024 - 2 ^ 970 \<le> \<bar>tot\<bar>" by simp
    from ovf [OF this] show ?thesis by simp
  qed
  with same ret ovf show ?thesis by (simp add: c)
qed

text \<open>A shell step without declared tokens, estimated with an empty provider table.\<close>

theorem estimate_step_non_llm_free_witness:
  "step_type step_run_tests \<noteq> LLM
   \<and> \<bar>fst (container_tokens step_run_tests)\<bar> < 2 ^ 1024 - 2 ^ 970
   \<and> (\<exists>est. estimate_step [] step_run_tests ''no-such-provider'' ''no-such-model'' = Inr est
            \<and> cost_usd est = Finite 0)"
proof -
  have t: "step_type step_run_tests \<noteq> LLM" by (simp add: step_run_tests_def)
  have "fst (container_tokens step_run_tests) = 0"
    by (simp add: container_tokens_def resolve_tokens_def step_run_tests_def truthy_str_def
        table_get_def STEP_TYPE_TOKEN_DEFAULTS_def)
  then have b: "\<bar>fst (container_tokens step_run_tests)\<bar> < 2 ^ 1024 - 2 ^ 970" by simp
  from estimate_step_non_llm_free [OF t, of "[]" "''no-such-provider''" "''no-such-model''" "[]"]
    t b show ?thesis by blast
qed

text \<open>A shell step that declares \<open>2^1024\<close> tokens: no estimate is returned.\<close>

theorem estimate_step_non_llm_counterexample:
  "step_type step_huge \<noteq> LLM
   \<and> estimate_step [] step_huge ''no-such-provider'' ''no-such-model'' = Inl OverflowError"
proof -
  have c: "container_tokens step_huge = (2 ^ 1024, ''declared'')"
    by (simp add: container_tokens_def resolve_tokens_def step_huge_def)
  have "(2::int) ^ 1024 - 2 ^ 970 \<le> \<bar>2 ^ 1024\<bar>" by simp
  then have "split_tokens (2 ^ 1024) = Inl OverflowError" by (rule split_tokens_overflow)
  then show ?thesis by (simp add: estimate_step_def c) (simp add: step_huge_def)
qed

section \<open>Provider and model of each step estimate\<close>

lemma estimate_steps_trace:
  "estimate_steps providers ex prov mdl ss = Inr ests \<Longrightarrow>
   list_all2 (\<lambda>step e.
       estimate_step providers step
         (if ex then prov else if truthy_str (provider step) then the (provider step) else prov)
         (step_model_of mdl step) = Inr e) ss ests"
proof (induction ss arbitrary: ests)
  case Nil
  then show ?case by simp
next
  case (Cons step rest)
  then show ?case
    by (auto simp: Let_def step_model_of_def split: sum.splits)
qed

text \<open>
  C7. Whenever \<open>estimate_workflow\<close> returns an estimate, each step estimate in it is the
  result of \<open>estimate_step\<close> for the corresponding step with the provider and the model
  resolved for that step. A provider supplied by the caller is the provider of the
  workflow and of every step, whatever the step declares. A model supplied by the caller
  wins the workflow-level resolution: it is the model of the estimate, and the model of
  every step that declares none of its own. When neither is supplied, a step's own provider
  and a step's own model win over the workflow-level provider and model.
\<close>

theorem estimate_workflow_provider_model:
  assumes "estimate_workflow providers w provider_arg model_arg = Inr est"
  shows "list_all2 (\<lambda>step e.
            estimate_step providers step
              (step_provider_of provider_arg (we_provider est) step)
              (step_model_of (we_model est) step) = Inr e) (steps w) (we_steps est)
       \<and> (\<forall>p. provider_arg = Some p \<longrightarrow>
             we_provider est = p
             \<and> (\<forall>step \<in> set (steps w). step_provider_of provider_arg (we_provider est) step = p))
       \<and> (\<forall>m. model_arg = Some m \<longrightarrow>
             we_model est = m
             \<and> (\<forall>step \<in> set (steps w). \<not> truthy_str (model step)
                   \<longrightarrow> step_model_of (we_model est) step = m))
       \<and> (provider_arg = None \<and> model_arg = None \<longrightarrow>
             (\<forall>step \<in> set (steps w).
                (truthy_str (provider step)
                   \<longrightarrow> step_provider_of provider_arg (we_provider est) step = the (provider step))
                \<and> (truthy_str (model step)
                   \<longrightarrow> step_model_of (we_model est) step = the (model step))))"
proof -
  from assms obtain ests where
    e: "estimate_steps providers (provider_arg \<noteq> None) (resolve_provider w provider_arg)
          (resolve_model providers (resolve_provider w provider_arg) model_arg) (steps w)
        = Inr ests"
    and est: "we_steps est = ests" "we_provider est = resolve_provider w provider_arg"
       "we_model est = resolve_model providers (resolve_provider w provider_arg) model_arg"
    unfolding estimate_workflow_def Let_def by (auto split: sum.splits)
  from estimate_steps_trace [OF e] est
  have "list_all2 (\<lambda>step e.
            estimate_step providers step
              (step_provider_of provider_arg (we_provider est) step)
              (step_model_of (we_model est) step) = Inr e) (steps w) (we_steps est)"
    by (cases provider_arg)
       (auto simp: step_provider_of_def resolve_provider_def elim!: list_all2_mono)
  moreover have "\<forall>p. provider_arg = Some p \<longrightarrow>
             we_provider est = p
             \<and> (\<forall>step \<in> set (steps w). step_provider_of provider_arg (we_provider est) step = p)"
    using est by (simp add: resolve_provider_def step_provider_of_def)
  moreover have "\<forall>m. model_arg = Some m \<longrightarrow>
             we_model est = m
             \<and> (\<forall>step \<in> set (steps w). \<not> truthy_str (model step)
                   \<longrightarrow> step_model_of (we_model est) step = m)"
    using est by (simp add: resolve_model_def step_model_of_def)
  moreover have "provider_arg = None \<and> model_arg = None \<longrightarrow>
             (\<forall>step \<in> set (steps w).
                (truthy_str (provider step)
                   \<longrightarrow> step_provider_of provider_arg (we_provider est) step = the (provider step))
                \<and> (truthy_str (model step)
                   \<longrightarrow> step_model_of (we_model est) step = the (model step)))"
    by (simp add: step_provider_of_def step_model_of_def)
  ultimately show ?thesis by blast
qed

lemma example_cost:
  "\<exists>c. calculate_cost 300 700 pricing = Inr c"
proof -
  have "py_truediv 300 1000 = Inr (Finite (fl (3 / 10)))"
    by (simp add: py_truediv_def DBL_OVERFLOW_def)
  moreover have "py_truediv 700 1000 = Inr (Finite (fl (7 / 10)))"
    by (simp add: py_truediv_def DBL_OVERFLOW_def)
  ultimately show ?thesis by (simp add: calculate_cost_def)
qed

lemma example_step_estimate:
  "\<exists>e. estimate_step example_providers
         (ParsedStep ''s1'' LLM (Some ''anthropic'') (Some ''model-a'') None (Some 1000) None 0
            None False False [] [] [])
         ''anthropic'' ''model-a'' = Inr e"
proof -
  let ?step = "ParsedStep ''s1'' LLM (Some ''anthropic'') (Some ''model-a'') None (Some 1000)
        None 0 None False False [] [] []"
  have c: "container_tokens ?step = (1000, ''declared'')"
    by (simp add: container_tokens_def resolve_tokens_def)
  obtain pr where
    pr: "get_model_pricing example_providers ''anthropic'' (Some ''model-a'') = Inr pr"
    by (simp add: get_model_pricing_def example_providers_def truthy_str_def)
  from example_cost obtain cost where "calculate_cost 300 700 pr = Inr cost" by blast
  then show ?thesis by (simp add: estimate_step_def c split_values pr)
qed

lemma example_estimate:
  "\<exists>est. estimate_workflow example_providers wf_step_model (Some ''anthropic'')
       (Some ''model-b'') = Inr est"
proof -
  from example_step_estimate obtain e where
    e: "estimate_step example_providers
         (ParsedStep ''s1'' LLM (Some ''anthropic'') (Some ''model-a'') None (Some 1000) None 0
            None False False [] [] [])
         ''anthropic'' ''model-a'' = Inr e" by blast
  show ?thesis
    unfolding estimate_workflow_def resolve_provider_def resolve_model_def budget_util_of_def
    by (simp add: wf_step_model_def wf_empty_no_budget_def truthy_str_def truthy_int_def e)
qed

text \<open>The caller supplies the provider \<^verbatim>\<open>anthropic\<close> and the model \<^verbatim>\<open>model-b\<close> for a
  workflow whose only step declares \<^verbatim>\<open>model-a\<close>: the workflow-level model is \<^verbatim>\<open>model-b\<close>
  and the step is estimated with \<^verbatim>\<open>anthropic\<close> and its own \<^verbatim>\<open>model-a\<close>.\<close>

theorem estimate_workflow_provider_model_witness:
  "\<exists>est. estimate_workflow example_providers wf_step_model (Some ''anthropic'')
            (Some ''model-b'') = Inr est
     \<and> we_provider est = ''anthropic'' \<and> we_model est = ''model-b''
     \<and> list_all2 (\<lambda>step e. estimate_step example_providers step ''anthropic'' ''model-a'' = Inr e)
          (steps wf_step_model) (we_steps est)"
proof -
  from example_estimate obtain est where
    e: "estimate_workflow example_providers wf_step_model (Some ''anthropic'')
          (Some ''model-b'') = Inr est"
    by blast
  from estimate_workflow_provider_model [OF e]
  have l: "list_all2 (\<lambda>step e.
            estimate_step example_providers step
              (step_provider_of (Some ''anthropic'') (we_provider est) step)
              (step_model_of (we_model est) step) = Inr e) (steps wf_step_model) (we_steps est)"
    and p: "we_provider est = ''anthropic''" and m: "we_model est = ''model-b''"
    by auto
  from l have "list_all2 (\<lambda>step e. estimate_step example_providers step ''anthropic'' ''model-a''
      = Inr e) (steps wf_step_model) (we_steps est)"
    by (simp add: wf_step_model_def wf_empty_no_budget_def list_all2_Cons1
        step_provider_of_def step_model_of_def truthy_str_def)
  with e p m show ?thesis by blast
qed

section \<open>Properties of the lint engine\<close>

lemma table_deduction:
  "table_get SEVERITY_DEDUCTIONS (Severity_value sev) 0 = deduction sev"
  by (cases sev) (simp_all add: table_get_def SEVERITY_DEDUCTIONS_def)

lemma foldl_subtract:
  "foldl (\<lambda>sc f. sc - g f) (a::int) xs = a - sum_list (map g xs)"
  by (induction xs arbitrary: a) simp_all

lemma run_lint_report:
  assumes "run_lint registry w cat sev = Inr rep"
  shows "score rep = max 0 (100 - sum_list (map (\<lambda>f. deduction (severity f)) (findings rep)))
       \<and> error_count rep = int (length (filter (\<lambda>f. severity f = ERROR) (findings rep)))
       \<and> warning_count rep = int (length (filter (\<lambda>f. severity f = WARNING) (findings rep)))
       \<and> info_count rep = int (length (filter (\<lambda>f. severity f = INFO) (findings rep)))"
  using assms
  by (auto simp: run_lint_def Let_def table_deduction foldl_subtract split: sum.splits)

lemma run_rules_returns:
  "(\<And>r. r \<in> set rules \<Longrightarrow> \<exists>fs. func r w = Inr fs) \<Longrightarrow> \<exists>fs. run_rules rules w = Inr fs"
proof (induction rules)
  case Nil
  then show ?case by simp
next
  case (Cons r rules)
  from Cons.prems [of r] obtain fs where "func r w = Inr fs" by auto
  moreover from Cons.IH Cons.prems obtain later where "run_rules rules w = Inr later" by auto
  ultimately show ?case by simp
qed

lemma run_lint_returns:
  assumes "\<And>r. r \<in> set registry \<Longrightarrow> \<exists>fs. func r w = Inr fs"
  shows "\<exists>rep. run_lint registry w cat sev = Inr rep"
proof -
  have "\<exists>fs. run_rules (case cat of Some c \<Rightarrow> get_rules_by_category registry c
                                  | None \<Rightarrow> get_all_rules registry) w = Inr fs"
    using assms
    by (intro run_rules_returns)
       (auto simp: get_rules_by_category_def get_all_rules_def split: option.splits)
  then show ?thesis by (auto simp: run_lint_def Let_def)
qed

lemma registry_list:
  "RULE_REGISTRY s =
     [\<lparr> re_rule_id = ''B001'', re_category = BUDGET, re_severity = WARNING,
         re_description = ''No token_budget declared at workflow level'',
         func = returning check_workflow_budget \<rparr>,
      \<lparr> re_rule_id = ''B002'', re_category = BUDGET, re_severity = WARNING,
         re_description = ''Step estimate exceeds 50% of workflow budget'',
         func = check_step_budget_hog \<rparr>,
      \<lparr> re_rule_id = ''B003'', re_category = BUDGET, re_severity = ERROR,
         re_description = ''Sum of step estimates exceeds declared budget'',
         func = returning check_total_over_budget \<rparr>,
      \<lparr> re_rule_id = ''B004'', re_category = BUDGET, re_severity = INFO,
         re_description = ''LLM step without estimated_tokens'',
         func = returning check_undeclared_tokens \<rparr>,
      \<lparr> re_rule_id = ''R001'', re_category = RESILIENCE, re_severity = WARNING,
         re_description = ''LLM step has no on_failure handler'',
         func = returning check_missing_on_failure \<rparr>,
      \<lparr> re_rule_id = ''R002'', re_category = RESILIENCE, re_severity = WARNING,
         re_description = ''on_failure: abort with no fallback'',
         func = returning check_abort_no_fallback \<rparr>,
      \<lparr> re_rule_id = ''R003'', re_category = RESILIENCE, re_severity = INFO,
         re_description = ''retry without max_retries'',
         func = returning check_retry_no_max \<rparr>,
      \<lparr> re_rule_id = ''R004'', re_category = RESILIENCE, re_severity = WARNING,
         re_description = ''Shell step without timeout'',
         func = returning check_shell_no_timeout \<rparr>,
      \<lparr> re_rule_id = ''R005'', re_category = RESILIENCE, re_severity = INFO,
         re_description = ''No checkpoint between expensive step groups'',
         func = returning check_missing_checkpoint \<rparr>,
      \<lparr> re_rule_id = ''E001'', re_category = EFFICIENCY, re_severity = INFO,
         re_description = ''Sequential LLM steps could be parallel'',
         func = returning (check_parallelizable s) \<rparr>,
      \<lparr> re_rule_id = ''E002'', re_category = EFFICIENCY, re_severity = WARNING,
         re_description = ''Duplicate role assignments'',
         func = returning check_duplicate_roles \<rparr>,
      \<lparr> re_rule_id = ''E003'', re_category = EFFICIENCY, re_severity = INFO,
         re_description = ''Unnecessary checkpoint between lightweight steps'',
         func = returning check_lightweight_checkpoint \<rparr>,
      \<lparr> re_rule_id = ''E004'', re_category = EFFICIENCY, re_severity = WARNING,
         re_description = ''fan_out without max_concurrent limit'',
         func = returning check_fan_out_no_limit \<rparr>,
      \<lparr> re_rule_id = ''S001'', re_category = SECURITY, re_severity = ERROR,
         re_description = ''Shell step with variable interpolation (command injection risk)'',
         func = returning (check_shell_injection s) \<rparr>,
      \<lparr> re_rule_id = ''S002'', re_category = SECURITY, re_severity = WARNING,
         re_description = ''Hardcoded paths in shell commands'',
         func = returning (check_hardcoded_paths s) \<rparr>,
      \<lparr> re_rule_id = ''S003'', re_category = SECURITY, re_severity = INFO,
         re_description = ''No input validation on required inputs'',
         func = returning check_input_validation \<rparr>,
      \<lparr> re_rule_id = ''S004'', re_category = SECURITY, re_severity = WARNING,
         re_description = ''MCP tool step without server validation'',
         func = returning check_mcp_no_server \<rparr>]"
  by (simp add: RULE_REGISTRY_def import_budget_def import_resilience_def
      import_efficiency_def import_security_def lint_rule_def)

lemma int_overflow_iff:
  "(DBL_OVERFLOW \<le> \<bar>of_int b :: rat\<bar>) = (2 ^ 1024 - 2 ^ 970 \<le> \<bar>b\<bar>)"
proof -
  have "(DBL_OVERFLOW \<le> \<bar>of_int b :: rat\<bar>)
      = ((of_int (2 ^ 1024 - 2 ^ 970) :: rat) \<le> of_int \<bar>b\<bar>)"
    by (simp add: DBL_OVERFLOW_def)
  also have "\<dots> = (2 ^ 1024 - 2 ^ 970 \<le> \<bar>b\<bar>)" by (simp only: of_int_le_iff)
  finally show ?thesis .
qed

lemma empty_hog:
  assumes "steps w = []"
  shows "check_step_budget_hog w =
     (if \<exists>b. token_budget w = Some b \<and> 2 ^ 1024 - 2 ^ 970 \<le> \<bar>b\<bar>
      then Inl OverflowError else Inr [])"
proof (cases "token_budget w")
  case None
  then show ?thesis by (simp add: check_step_budget_hog_def)
next
  case (Some b)
  have "b \<noteq> 0" if "2 ^ 1024 - 2 ^ 970 \<le> \<bar>b\<bar>" using that by auto
  then show ?thesis
    using assms Some
    by (auto simp: check_step_budget_hog_def py_float_of_int_def int_overflow_iff)
qed

lemma empty_run_rules:
  assumes "steps w = []"
  shows "run_rules (RULE_REGISTRY s) w =
     (case check_step_budget_hog w of
        Inl e \<Rightarrow> Inl e
      | Inr hog \<Rightarrow> Inr (check_workflow_budget w @ hog @ check_total_over_budget w
                         @ check_input_validation w))"
  using assms
  by (simp add: registry_list returning_def
     check_undeclared_tokens_def check_missing_on_failure_def check_abort_no_fallback_def
     check_retry_no_max_def check_shell_no_timeout_def check_missing_checkpoint_def
     check_parallelizable_def check_duplicate_roles_def check_lightweight_checkpoint_def
     check_fan_out_no_limit_def check_shell_injection_def check_hardcoded_paths_def
     check_mcp_no_server_def split: sum.splits)

lemma run_lint_unfiltered:
  "run_lint registry w None None =
     (case run_rules registry w of
        Inl e \<Rightarrow> Inl e
      | Inr fs \<Rightarrow>
          Inr \<lparr> lr_workflow_name = name w,
                score = max 0 (100 - sum_list (map (\<lambda>f. deduction (severity f)) fs)),
                findings = fs,
                error_count = int (length (filter (\<lambda>f. severity f = ERROR) fs)),
                warning_count = int (length (filter (\<lambda>f. severity f = WARNING) fs)),
                info_count = int (length (filter (\<lambda>f. severity f = INFO) fs)) \<rparr>)"
  by (simp add: run_lint_def get_all_rules_def Let_def table_deduction foldl_subtract
      split: sum.splits)

lemma empty_budget_rules:
  assumes "steps w = []"
  shows "(check_workflow_budget w @ check_total_over_budget w = [])
          = (\<exists>b. token_budget w = Some b \<and> 0 \<le> b)"
  using assms
  by (cases "token_budget w")
     (auto simp: check_workflow_budget_def check_total_over_budget_def Let_def)

lemma input_validation_typed: "(check_input_validation w = []) = inputs_typed w"
  unfolding check_input_validation_def inputs_typed_def
  by (auto simp: Let_def split: pyval.splits if_splits) 

lemma empty_lint_clean:
  assumes "steps w = []"
  shows "(\<exists>rep. run_lint (RULE_REGISTRY s) w None None = Inr rep \<and> score rep = 100
               \<and> findings rep = [])
     \<longleftrightarrow> ((\<exists>b. token_budget w = Some b \<and> 0 \<le> b \<and> b < 2 ^ 1024 - 2 ^ 970)
           \<and> inputs_typed w)"
proof (cases "\<exists>b. token_budget w = Some b \<and> 2 ^ 1024 - 2 ^ 970 \<le> \<bar>b\<bar>")
  case True
  then have "run_lint (RULE_REGISTRY s) w None None = Inl OverflowError"
    by (simp add: run_lint_unfiltered empty_run_rules [OF assms] empty_hog [OF assms])
  moreover from True have "\<not> (\<exists>b. token_budget w = Some b \<and> 0 \<le> b \<and> b < 2 ^ 1024 - 2 ^ 970)"
    by auto
  ultimately show ?thesis by simp
next
  case False
  then have r: "run_rules (RULE_REGISTRY s) w
      = Inr (check_workflow_budget w @ check_total_over_budget w @ check_input_validation w)"
    by (simp add: empty_run_rules [OF assms] empty_hog [OF assms])
  have "(\<exists>rep. run_lint (RULE_REGISTRY s) w None None = Inr rep \<and> score rep = 100
               \<and> findings rep = [])
     \<longleftrightarrow> (check_workflow_budget w @ check_total_over_budget w = []
           \<and> check_input_validation w = [])"
    by (auto simp: run_lint_unfiltered r)
  also have "\<dots> \<longleftrightarrow> ((\<exists>b. token_budget w = Some b \<and> 0 \<le> b) \<and> inputs_typed w)"
    by (simp only: empty_budget_rules [OF assms] input_validation_typed)
  also have "\<dots> \<longleftrightarrow> ((\<exists>b. token_budget w = Some b \<and> 0 \<le> b \<and> b < 2 ^ 1024 - 2 ^ 970)
           \<and> inputs_typed w)"
    using False by auto
  finally show ?thesis .
qed

text \<open>
  C2. For every workflow, every registry and every choice of category and severity
  filters, a report returned by \<open>run_lint\<close> has a score equal to the maximum of 0 and 100
  minus the sum of the deductions (error 10, warning 5, info 2) of the findings it returns,
  and its three counts are the numbers of findings of each severity in that same list;
  and \<open>run_lint\<close> returns a report whenever every rule of the registry returns its findings
  for the workflow.
\<close>

theorem run_lint_score_consistent:
  "(\<forall>rep. run_lint registry w cat sev = Inr rep \<longrightarrow>
      score rep = max 0 (100 - sum_list (map (\<lambda>f. deduction (severity f)) (findings rep)))
      \<and> error_count rep = int (length (filter (\<lambda>f. severity f = ERROR) (findings rep)))
      \<and> warning_count rep = int (length (filter (\<lambda>f. severity f = WARNING) (findings rep)))
      \<and> info_count rep = int (length (filter (\<lambda>f. severity f = INFO) (findings rep))))
   \<and> ((\<forall>r \<in> set registry. \<exists>fs. func r w = Inr fs)
        \<longrightarrow> (\<exists>rep. run_lint registry w cat sev = Inr rep))"
  using run_lint_report [of registry w cat sev] run_lint_returns [of registry w cat sev]
  by blast

lemma no_budget_report:
  "\<exists>rep. run_lint (RULE_REGISTRY str_of_unused) wf_empty_no_budget None None = Inr rep
     \<and> map severity (findings rep) = [WARNING]"
proof -
  have s: "steps wf_empty_no_budget = []" by (simp add: wf_empty_no_budget_def)
  have h: "check_step_budget_hog wf_empty_no_budget = Inr []"
    by (simp add: empty_hog [OF s]) (simp add: wf_empty_no_budget_def)
  have "run_rules (RULE_REGISTRY str_of_unused) wf_empty_no_budget
     = Inr (check_workflow_budget wf_empty_no_budget)"
    by (simp add: empty_run_rules [OF s] h)
       (simp add: check_total_over_budget_def check_input_validation_def wf_empty_no_budget_def)
  moreover have "map severity (check_workflow_budget wf_empty_no_budget) = [WARNING]"
    by (simp add: check_workflow_budget_def wf_empty_no_budget_def)
  ultimately show ?thesis by (simp add: run_lint_unfiltered)
qed

text \<open>The report for an empty workflow without budget: one warning, score 95.\<close>

theorem run_lint_score_consistent_witness:
  "\<exists>rep. run_lint (RULE_REGISTRY str_of_unused) wf_empty_no_budget None None = Inr rep
     \<and> map severity (findings rep) = [WARNING]
     \<and> score rep = 95 \<and> error_count rep = 0 \<and> warning_count rep = 1 \<and> info_count rep = 0"
proof -
  from no_budget_report obtain rep where
    r: "run_lint (RULE_REGISTRY str_of_unused) wf_empty_no_budget None None = Inr rep"
    and f: "map severity (findings rep) = [WARNING]" by auto
  from f obtain x where x: "findings rep = [x]" "severity x = WARNING" by auto
  from run_lint_score_consistent
    [of "RULE_REGISTRY str_of_unused" wf_empty_no_budget None None] r
  have "score rep = max 0 (100 - sum_list (map (\<lambda>f. deduction (severity f)) (findings rep)))
      \<and> error_count rep = int (length (filter (\<lambda>f. severity f = ERROR) (findings rep)))
      \<and> warning_count rep = int (length (filter (\<lambda>f. severity f = WARNING) (findings rep)))
      \<and> info_count rep = int (length (filter (\<lambda>f. severity f = INFO) (findings rep)))"
    by blast
  then have "score rep = 95 \<and> error_count rep = 0 \<and> warning_count rep = 1 \<and> info_count rep = 0"
    by (simp add: x)
  with r f show ?thesis by auto
qed

lemma rne_0: "rne 0 = 0"
  by (simp add: rne_def)

lemma to_double_0: "to_double 0 = Finite 0"
  by (simp add: to_double_def DBL_OVERFLOW_def fl_0)

lemma py_round_n_0: "py_round_n (Finite 0) n = Finite 0"
  by (simp add: rne_0 to_double_0)

text \<open>
  C10. For a workflow whose declared token budget is 0, the rules B002 and B003 return no
  finding, B001 returns no finding either because a budget is present, and every estimate
  that \<open>estimate_workflow\<close> returns has no budget utilization.
\<close>

theorem zero_budget_unbudgeted:
  assumes "token_budget w = Some 0"
  shows "check_step_budget_hog w = Inr [] \<and> check_total_over_budget w = []
       \<and> check_workflow_budget w = []
       \<and> (\<forall>est. estimate_workflow providers w p m = Inr est \<longrightarrow> budget_utilization est = None)"
  using assms
  by (auto simp: check_step_budget_hog_def check_total_over_budget_def check_workflow_budget_def
      estimate_workflow_def budget_util_of_def Let_def truthy_int_def split: sum.splits)

lemma wf_zero_budget_estimate:
  "\<exists>est. estimate_workflow [] wf_zero_budget None None = Inr est"
proof -
  have c: "container_tokens step_run_tests = (0, ''default'')"
    by (simp add: container_tokens_def resolve_tokens_def step_run_tests_def truthy_str_def
        table_get_def STEP_TYPE_TOKEN_DEFAULTS_def)
  have t: "step_type step_run_tests \<noteq> LLM" "provider step_run_tests = None"
    "model step_run_tests = None"
    by (simp_all add: step_run_tests_def)
  have "\<exists>e. estimate_step [] step_run_tests ''anthropic'' ''unknown'' = Inr e"
    by (simp add: estimate_step_def c split_values t)
  then obtain e where e: "estimate_step [] step_run_tests ''anthropic'' ''unknown'' = Inr e"
    by blast
  show ?thesis
    unfolding estimate_workflow_def resolve_provider_def resolve_model_def budget_util_of_def
    by (simp add: wf_zero_budget_def wf_empty_no_budget_def t truthy_str_def truthy_int_def e)
qed

text \<open>A workflow with budget 0 and one shell step, whose estimate is returned.\<close>

theorem zero_budget_unbudgeted_witness:
  "token_budget wf_zero_budget = Some 0
   \<and> check_step_budget_hog wf_zero_budget = Inr []
   \<and> check_total_over_budget wf_zero_budget = []
   \<and> check_workflow_budget wf_zero_budget = []
   \<and> (\<exists>est. estimate_workflow [] wf_zero_budget None None = Inr est
            \<and> budget_utilization est = None)"
proof -
  have b: "token_budget wf_zero_budget = Some 0"
    by (simp add: wf_zero_budget_def)
  from wf_zero_budget_estimate obtain est
    where e: "estimate_workflow [] wf_zero_budget None None = Inr est" by blast
  from zero_budget_unbudgeted [OF b, of "[]" None None] e b show ?thesis by blast
qed

lemma empty_estimate:
  assumes "steps w = []"
  shows "\<exists>est. estimate_workflow providers w p m = Inr est \<and> total_tokens est = 0
           \<and> total_cost_usd est = Finite 0"
proof -
  have "py_truediv 0 b = Inr (Finite 0)" if "b \<noteq> 0" for b
    using that by (simp add: py_truediv_def DBL_OVERFLOW_def fl_0)
  then have "\<exists>u. budget_util_of 0 (token_budget w) = Inr u"
    by (cases "token_budget w") (auto simp: budget_util_of_def truthy_int_def)
  then show ?thesis
    using assms
    by (auto simp: estimate_workflow_def Let_def sum_costs_def rne_0 to_double_0)
qed

text \<open>
  C1 (as amended). For a workflow whose top-level step list is empty, \<open>estimate_workflow\<close>
  returns an estimate with total tokens 0 and total cost 0, and \<open>run_lint\<close> without
  category or severity filter returns a report with score 100 and no findings exactly when
  the workflow declares a token budget \<open>b\<close> with \<open>0 \<le> b < 2^1024 - 2^970\<close> and no declared
  input is required without a type. (Without budget rule B001 reports; a negative budget
  makes rule B003 report; a budget of \<open>2^1024 - 2^970\<close> or more makes rule B002 raise
  \<^verbatim>\<open>OverflowError\<close>; a required input without type makes rule S003 report.)
\<close>

theorem empty_workflow_estimate_and_lint:
  assumes "steps w = []"
  shows "(\<exists>est. estimate_workflow providers w p m = Inr est \<and> total_tokens est = 0
            \<and> total_cost_usd est = Finite 0)
     \<and> ((\<exists>rep. run_lint (RULE_REGISTRY s) w None None = Inr rep \<and> score rep = 100
               \<and> findings rep = [])
         \<longleftrightarrow> ((\<exists>b. token_budget w = Some b \<and> 0 \<le> b \<and> b < 2 ^ 1024 - 2 ^ 970)
               \<and> inputs_typed w))"
  using empty_estimate [OF assms] empty_lint_clean [OF assms] by blast

text \<open>An empty workflow that declares no token budget: rule B001 fires, the score is 95.\<close>

theorem empty_workflow_lint_counterexample:
  "steps wf_empty_no_budget = []
   \<and> \<not> isl (run_lint (RULE_REGISTRY str_of_unused) wf_empty_no_budget None None)
   \<and> score (projr (run_lint (RULE_REGISTRY str_of_unused) wf_empty_no_budget None None)) = 95
   \<and> length (findings
        (projr (run_lint (RULE_REGISTRY str_of_unused) wf_empty_no_budget None None))) = 1"
proof -
  from no_budget_report obtain rep where
    r: "run_lint (RULE_REGISTRY str_of_unused) wf_empty_no_budget None None = Inr rep"
    and f: "map severity (findings rep) = [WARNING]" by auto
  from f obtain x where x: "findings rep = [x]" "severity x = WARNING" by auto
  from run_lint_report [OF r] have "score rep = 95" by (simp add: x)
  moreover have "steps wf_empty_no_budget = []" by (simp add: wf_empty_no_budget_def)
  ultimately show ?thesis by (simp add: r x)
qed

text \<open>An empty workflow with a budget of 100000 tokens and no declared inputs.\<close>

theorem empty_workflow_estimate_and_lint_witness:
  "steps wf_empty_budgeted = []
   \<and> (\<exists>est. estimate_workflow [] wf_empty_budgeted None None = Inr est \<and> total_tokens est = 0
            \<and> total_cost_usd est = Finite 0)
   \<and> (\<exists>rep. run_lint (RULE_REGISTRY str_of_unused) wf_empty_budgeted None None = Inr rep
            \<and> score rep = 100 \<and> findings rep = [])"
proof -
  have s: "steps wf_empty_budgeted = []"
    by (simp add: wf_empty_budgeted_def wf_empty_no_budget_def)
  have "token_budget wf_empty_budgeted = Some 100000"
    by (simp add: wf_empty_budgeted_def)
  then have c: "\<exists>b. token_budget wf_empty_budgeted = Some b \<and> 0 \<le> b \<and> b < 2 ^ 1024 - 2 ^ 970"
    by simp
  have i: "inputs_typed wf_empty_budgeted"
    by (simp add: inputs_typed_def wf_empty_budgeted_def wf_empty_no_budget_def)
  from empty_workflow_estimate_and_lint [OF s, of "[]" None None str_of_unused] s c i
  show ?thesis by blast
qed

section \<open>The rule registry and the step ids of the findings\<close>












































section \<open>Format detection and normalization\<close>

text \<open>
  C3. \<open>detect_format\<close> is to return one format tag for every raw mapping. At the mapping
  \<^verbatim>\<open>{"steps": [{"type": ["shell"]}]}\<close> the membership test of the list-valued \<^verbatim>\<open>type\<close> in
  the set of known step types raises \<^verbatim>\<open>TypeError\<close>: no tag is returned.
\<close>

theorem detect_format_unhashable_type:
  "detect_format str_of raw_unhashable_type = Inl TypeError"
  by (simp add: detect_format_def raw_unhashable_type_def dict_has_def dict_get_default_def
      dict_get_def py_str_def py_lower_def in_str_set_def)

text \<open>
  C5. The normalizers are never to raise on wrong-typed values inside items. The mapping
  \<^verbatim>\<open>{"agents": [], "tasks": [{"description": 42}]}\<close> is detected as the agent/task format,
  and \<open>parse_crewai\<close> raises \<^verbatim>\<open>TypeError\<close> on it, whatever the validators: \<open>parse_task\<close>
  slices the number 42.
\<close>

theorem parse_crewai_numeric_description:
  "detect_format str_of raw_numeric_description = Inr CREWAI
   \<and> parse_crewai V str_of raw_numeric_description sp = Inl TypeError"
  by (simp add: detect_format_def parse_crewai_def raw_numeric_description_def dict_has_def
      dict_get_default_def dict_get_def parse_task_def)

text \<open>Apart from that exception the detector follows the cascade: when every mapping item
  of \<^verbatim>\<open>steps\<close> has a hashable \<^verbatim>\<open>type\<close>, the tag returned is the one the specification
  names.\<close>

lemma in_str_set_hashable:
  "hashable v \<Longrightarrow> in_str_set v ms = Inr (\<exists>s \<in> set ms. v = PStr s)"
  by (cases v) (auto simp: in_str_set_def)

lemma detect_steps_loop_hashable:
  assumes "\<And>d. PDict d \<in> set xs \<Longrightarrow> hashable (dict_get d ''type'')"
  shows "detect_steps_loop xs
    = Inr (\<exists>d. PDict d \<in> set xs \<and> (\<exists>s \<in> set GORGON_STEP_TYPES. dict_get d ''type'' = PStr s))"
  using assms
proof (induction xs)
  case Nil
  then show ?case by simp
next
  case (Cons x xs)
  then show ?case
    by (cases x) (auto simp: in_str_set_hashable split: sum.splits bool.splits)
qed

lemma empty_meta_no_langgraph:
  "\<not> py_in_str ''langgraph'' (py_lower (py_str str_of (PDict [])))"
  by (simp add: py_str_def py_lower_def)

lemma detect_format_alt:
  "detect_format str_of raw =
     (if dict_has raw ''agents'' \<and> dict_has raw ''tasks'' then Inr CREWAI
      else if dict_has raw ''nodes'' \<or> dict_has raw ''edges'' then Inr LANGCHAIN
      else if (case dict_get_default raw ''metadata'' (PDict []) of
                 PDict m \<Rightarrow> py_in_str ''langgraph'' (py_lower (py_str str_of (PDict m)))
               | _ \<Rightarrow> False) then Inr LANGCHAIN
      else (case dict_get_default raw ''steps'' (PList []) of
              PList xs \<Rightarrow>
                if xs = [] then Inr GENERIC
                else (case detect_steps_loop xs of
                        Inl e \<Rightarrow> Inl e
                      | Inr b \<Rightarrow> Inr (if b then GORGON else GENERIC))
            | _ \<Rightarrow> Inr GENERIC))"
  by (auto simp: detect_format_def Let_def simp del: detect_steps_loop.simps
      split: pyval.splits list.splits sum.splits bool.splits)

lemma metadata_test:
  "(case dict_get_default raw ''metadata'' (PDict []) of
      PDict m \<Rightarrow> py_in_str ''langgraph'' (py_lower (py_str str_of (PDict m)))
    | _ \<Rightarrow> False)
   = (\<exists>m. map_of raw ''metadata'' = Some (PDict m)
          \<and> py_in_str ''langgraph'' (py_lower (py_str str_of (PDict m))))"
  using empty_meta_no_langgraph [of str_of]
  by (auto simp: dict_get_default_def split: option.splits pyval.splits)

lemma detect_format_cascade:
  assumes "\<And>xs d. map_of raw ''steps'' = Some (PList xs) \<Longrightarrow> PDict d \<in> set xs
             \<Longrightarrow> hashable (dict_get d ''type'')"
  shows "detect_format str_of raw = Inr (detect_format_spec str_of raw)"
proof -
  have L: "detect_steps_loop xs
      = Inr (\<exists>d. PDict d \<in> set xs \<and> (\<exists>s \<in> set GORGON_STEP_TYPES. dict_get d ''type'' = PStr s))"
    if "map_of raw ''steps'' = Some (PList xs)" for xs
    using assms [OF that] by (rule detect_steps_loop_hashable)
  show ?thesis
  proof (cases "map_of raw ''steps''")
    case None
    then show ?thesis
      unfolding detect_format_alt metadata_test
      by (auto simp: detect_format_spec_def dict_get_default_def)
  next
    case (Some v)
    then show ?thesis
      using L unfolding detect_format_alt metadata_test
      by (cases v) (auto simp: detect_format_spec_def dict_get_default_def)
  qed
qed

text \<open>Items that are not mappings are skipped by the loops of the normalizer.\<close>

lemma parse_items_skip:
  "(\<And>d. PDict d \<notin> set xs) \<Longrightarrow> parse_items parse_one i xs = Inr []"
  by (induction xs arbitrary: i) (auto split: pyval.splits)

end
